theory Spec2Isabelle
  imports Main
begin

section \<open>The SavingsPlan contract: data model\<close>

text \<open>
  A shallow embedding of \<^verbatim>\<open>contracts/SavingsPlan.sol\<close>.

  \<^item> \<^verbatim>\<open>uint256\<close> is a natural number; Solidity 0.8 checks every \<^verbatim>\<open>+\<close>, \<^verbatim>\<open>-\<close>,
    \<^verbatim>\<open>*\<close>, \<^verbatim>\<open>++\<close> and reverts with a panic on overflow or underflow, so each arithmetic
    operation of the source is preceded here by its range check and the branch
    \<open>Inl Panic\<close>.
  \<^item> \<^verbatim>\<open>address\<close> and \<^verbatim>\<open>bytes32\<close> are natural numbers; \<open>0\<close> is \<^verbatim>\<open>address(0)\<close>.
  \<^item> A revert is the value \<open>Inl e\<close>; the EVM discards every state change of a reverted
    call, so the state after \<open>Inl e\<close> is the state before the call.
  \<^item> \<^verbatim>\<open>msg.sender\<close>, \<^verbatim>\<open>block.timestamp\<close> and the answers of the external yield
    protocol are the fields of the call environment \<open>Env\<close>.
  \<^item> Events are not part of the state and are left out.
  \<^item> \<^verbatim>\<open>nonReentrant\<close> never fires: the external calls of the model do not call back.
\<close>

type_synonym address = nat
type_synonym bytes32 = nat

definition MAX_UINT256 :: nat where
  "MAX_UINT256 = 2 ^ 256 - 1"

definition ONE_DAY :: nat where
  "ONE_DAY = 86400"

definition ONE_HOUR :: nat where
  "ONE_HOUR = 3600"

definition PLAN_DURATION_1_MONTH :: nat where
  "PLAN_DURATION_1_MONTH = 30 * 86400"

definition PLAN_DURATION_3_MONTHS :: nat where
  "PLAN_DURATION_3_MONTHS = 90 * 86400"

definition PLAN_DURATION_6_MONTHS :: nat where
  "PLAN_DURATION_6_MONTHS = 180 * 86400"

definition PLAN_DURATION_1_YEAR :: nat where
  "PLAN_DURATION_1_YEAR = 365 * 86400"

definition PRECISION :: nat where
  "PRECISION = 10 ^ 18"

definition MAX_EARLY_WITHDRAWAL_PENALTY :: nat where
  "MAX_EARLY_WITHDRAWAL_PENALTY = 5000"

definition MIN_YIELD_DEPOSIT_THRESHOLD :: nat where
  "MIN_YIELD_DEPOSIT_THRESHOLD = 1000 * 10 ^ 6"

datatype PlanDuration = ONE_MONTH | THREE_MONTHS | SIX_MONTHS | ONE_YEAR

datatype role = DEFAULT_ADMIN_ROLE | KEEPER_ROLE | EMERGENCY_ROLE

datatype error =
    InvalidPlanDuration
  | InvalidDailyAmount
  | InvalidPlanId
  | PlanNotActive
  | DeductionAlreadyExecuted
  | InvalidWithdrawalAmount
  | Unauthorized
  | InvalidYieldProtocol
  | YieldProtocolUnhealthy
  | InvalidEmergencyWithdrawal
  | EmergencyWithdrawalNotReady
  | EmergencyWithdrawalAlreadyExecuted
  | EmergencyWithdrawalIsCancelled
  | InvalidParameter
  | Panic
  | EnforcedPause
  | ExpectedPause
  | AccessControlUnauthorizedAccount
  | AccessControlBadConfirmation
  | ERC20InsufficientBalance
  | ERC20InsufficientAllowance
  | ERC20InvalidReceiver
  | ERC20InvalidSender
  | ExternalCallReverted

record Plan =
  owner :: address
  dailyAmount :: nat
  startDate :: nat
  endDate :: nat
  totalTarget :: nat
  accumulatedBalance :: nat
  principalDeposited :: nat
  yieldEarned :: nat
  lastDeductionDate :: nat
  successfulDeductions :: nat
  missedDeductions :: nat
  isActive :: bool
  isCompleted :: bool
  duration :: PlanDuration

record EmergencyWithdrawal =
  admin :: address
  user :: address
  planId :: nat
  amount :: nat
  scheduledTime :: nat
  executionTime :: nat
  reasonHash :: bytes32
  executed :: bool
  cancelled :: bool

text \<open>
  The identifier of an emergency withdrawal is
  \<^verbatim>\<open>keccak256(abi.encodePacked(msg.sender, user, planId, amount, block.timestamp, reasonHash))\<close>.
  The packed encoding of six fixed-width values is injective and the hash is taken to be
  free of collisions, so the identifier is the tuple itself.
\<close>

type_synonym withdrawalId = "address \<times> address \<times> nat \<times> nat \<times> nat \<times> bytes32"

text \<open>
  The storage of the contract, the \<^verbatim>\<open>paused\<close> flag of \<^verbatim>\<open>Pausable\<close>, the role table of
  \<^verbatim>\<open>AccessControl\<close>, the contract's own address, and the ledger of the USDC token
  (\<open>tokenBalances\<close>, and \<open>tokenAllowances holder spender\<close>).
  The mappings of Solidity are total functions whose unset entries are zero.
\<close>

record State =
  thisAddress :: address
  yieldProtocol :: address
  totalPlans :: nat
  earlyWithdrawalPenalty :: nat
  minDailyDeduction :: nat
  maxDailyDeduction :: nat
  protocolFeeBps :: nat
  userYieldShareBps :: nat
  minYieldDepositThreshold :: nat
  totalPrincipal :: nat
  totalUserYield :: nat
  totalProtocolYield :: nat
  totalYieldShares :: nat
  emergencyWithdrawalDelay :: nat
  plans :: "nat \<Rightarrow> Plan"
  userPlans :: "address \<Rightarrow> nat list"
  emergencyWithdrawals :: "withdrawalId \<Rightarrow> EmergencyWithdrawal"
  lastYieldHarvest :: nat
  yieldHarvestInterval :: nat
  paused :: bool
  roles :: "role \<Rightarrow> address \<Rightarrow> bool"
  tokenBalances :: "address \<Rightarrow> nat"
  tokenAllowances :: "address \<Rightarrow> address \<Rightarrow> nat"

text \<open>
  The environment of one call. The yield protocol is an external contract reached through
  \<^verbatim>\<open>IYieldProtocol\<close>; what it answers is not decided by this contract, so each answer is
  a field: \<open>None\<close> is a call that reverts. \<open>yp_deposit amt\<close> is the number of shares
  returned by \<^verbatim>\<open>deposit(amt)\<close>, \<open>yp_withdraw shares\<close> the amount of USDC returned by
  \<^verbatim>\<open>withdraw(shares)\<close> and \<open>yp_emergencyWithdraw\<close> the amount returned by
  \<^verbatim>\<open>emergencyWithdraw()\<close>. The tokens such a call moves are moved on the ledger, between
  the contract's account and the protocol's (\<open>protocolPulls\<close> and \<open>protocolPays\<close> below).
  \<open>code_length\<close> and \<open>candidate_isHealthy\<close> answer the two questions
  \<^verbatim>\<open>setYieldProtocol\<close> asks about a candidate address.
\<close>

record Env =
  msg_sender :: address
  block_timestamp :: nat
  yp_isHealthy :: "bool option"
  yp_getBalance :: "nat option"
  yp_deposit :: "nat \<Rightarrow> nat option"
  yp_withdraw :: "nat \<Rightarrow> nat option"
  yp_emergencyWithdraw :: "nat option"
  code_length :: "address \<Rightarrow> nat"
  candidate_isHealthy :: "address \<Rightarrow> bool option"

section \<open>The token ledger\<close>

text \<open>
  The ERC20 token behind \<^verbatim>\<open>usdcToken\<close> (the repository's \<^verbatim>\<open>MockUSDC\<close> is OpenZeppelin's
  \<^verbatim>\<open>ERC20\<close>): \<^verbatim>\<open>transfer\<close> from the contract, as called by \<^verbatim>\<open>safeTransfer\<close>, and
  \<^verbatim>\<open>transferFrom\<close> with the contract as spender, as called by \<^verbatim>\<open>safeTransferFrom\<close>.
  An allowance of \<open>MAX_UINT256\<close> is not spent.
\<close>

definition erc20_move :: "address \<Rightarrow> address \<Rightarrow> nat \<Rightarrow> State \<Rightarrow> error + State" where
  "erc20_move from to v s =
     (if from = 0 then Inl ERC20InvalidSender
      else if to = 0 then Inl ERC20InvalidReceiver
      else if tokenBalances s from < v then Inl ERC20InsufficientBalance
      else
        let b1 = (tokenBalances s)(from := tokenBalances s from - v);
            b2 = b1(to := b1 to + v)
        in Inr (s\<lparr>tokenBalances := b2\<rparr>))"

definition safeTransfer :: "address \<Rightarrow> nat \<Rightarrow> State \<Rightarrow> error + State" where
  "safeTransfer to v s = erc20_move (thisAddress s) to v s"

definition safeTransferFrom :: "address \<Rightarrow> address \<Rightarrow> nat \<Rightarrow> State \<Rightarrow> error + State" where
  "safeTransferFrom from to v s =
     (let spender = thisAddress s; cur = tokenAllowances s from spender in
      if cur \<noteq> MAX_UINT256 \<and> cur < v then Inl ERC20InsufficientAllowance
      else
        let s1 = (if cur \<noteq> MAX_UINT256
                  then s\<lparr>tokenAllowances :=
                          (tokenAllowances s)(from := (tokenAllowances s from)(spender := cur - v))\<rparr>
                  else s)
        in erc20_move from to v s1)"

section \<open>Internal functions\<close>

text \<open>The token side of a call into the yield protocol. The protocol keeps the tokens at
  its own address, as the repository's \<^verbatim>\<open>MockYieldProtocol\<close> does: \<^verbatim>\<open>deposit(amt)\<close>
  pulls \<open>amt\<close> from the contract with \<^verbatim>\<open>safeTransferFrom\<close> (the contract has approved
  \<open>amt\<close> just before), and \<^verbatim>\<open>withdraw\<close> and \<^verbatim>\<open>emergencyWithdraw\<close> pay the amount
  they return with \<^verbatim>\<open>safeTransfer\<close>. A call whose token transfer fails reverts as a
  whole: \<open>None\<close>. The approvals the contract gives the protocol are not tracked: nothing
  in the contract reads them.\<close>

definition protocolPulls :: "nat \<Rightarrow> State \<Rightarrow> State option" where
  "protocolPulls amt s =
     (case erc20_move (thisAddress s) (yieldProtocol s) amt s of
        Inl err \<Rightarrow> None
      | Inr s1 \<Rightarrow> Some s1)"

definition protocolPays :: "nat \<Rightarrow> State \<Rightarrow> State option" where
  "protocolPays v s =
     (case erc20_move (yieldProtocol s) (thisAddress s) v s of
        Inl err \<Rightarrow> None
      | Inr s1 \<Rightarrow> Some s1)"

text \<open>\<^verbatim>\<open>_depositToYield\<close>. A deposit that reverts is swallowed by the \<^verbatim>\<open>catch\<close>.\<close>

definition depositToYield :: "Env \<Rightarrow> nat \<Rightarrow> State \<Rightarrow> error + State" where
  "depositToYield e amt s =
     (if yieldProtocol s = 0 then Inr s
      else if amt = 0 then Inr s
      else
        (case yp_deposit e amt of
           None \<Rightarrow> Inr s
         | Some shares \<Rightarrow>
             (case protocolPulls amt s of
                None \<Rightarrow> Inr s
              | Some s1 \<Rightarrow>
                  if totalYieldShares s1 + shares > MAX_UINT256 then Inl Panic
                  else Inr (s1\<lparr>totalYieldShares := totalYieldShares s1 + shares\<rparr>))))"

text \<open>\<^verbatim>\<open>_withdrawFromYield\<close>, with its fallback to \<^verbatim>\<open>emergencyWithdraw\<close>.\<close>

definition withdrawFromYield :: "Env \<Rightarrow> nat \<Rightarrow> State \<Rightarrow> error + State" where
  "withdrawFromYield e amt s =
     (if yieldProtocol s = 0 then Inr s
      else if totalYieldShares s = 0 then Inr s
      else
        (case yp_getBalance e of
           None \<Rightarrow> Inl ExternalCallReverted
         | Some yieldBalance \<Rightarrow>
             if yieldBalance = 0 then Inr s
             else if amt * totalYieldShares s > MAX_UINT256 then Inl Panic
             else
               let q = (amt * totalYieldShares s) div yieldBalance;
                   sharesToWithdraw = (if q > totalYieldShares s then totalYieldShares s else q)
               in
                 (case Option.bind (yp_withdraw e sharesToWithdraw)
                         (\<lambda>withdrawn. protocolPays withdrawn s) of
                    Some s1 \<Rightarrow>
                      Inr (s1\<lparr>totalYieldShares := totalYieldShares s1 - sharesToWithdraw\<rparr>)
                  | None \<Rightarrow>
                      (case Option.bind (yp_emergencyWithdraw e)
                              (\<lambda>emergencyAmount. protocolPays emergencyAmount s) of
                         Some s1 \<Rightarrow> Inr (s1\<lparr>totalYieldShares := 0\<rparr>)
                       | None \<Rightarrow> Inr s))))"

text \<open>\<^verbatim>\<open>_calculateTimeFactor\<close>, scaled by \<open>PRECISION\<close>.\<close>

definition calculateTimeFactor :: "Env \<Rightarrow> Plan \<Rightarrow> error + nat" where
  "calculateTimeFactor e plan =
     (if endDate plan < startDate plan then Inl Panic
      else
        let planDuration = endDate plan - startDate plan in
        if \<not> block_timestamp e > endDate plan \<and> block_timestamp e < startDate plan then Inl Panic
        else
          let timeElapsed = (if block_timestamp e > endDate plan then planDuration
                             else block_timestamp e - startDate plan)
          in
            if planDuration = 0 then Inr PRECISION
            else if timeElapsed * PRECISION > MAX_UINT256 then Inl Panic
            else Inr ((timeElapsed * PRECISION) div planDuration))"

section \<open>User functions\<close>

text \<open>\<^verbatim>\<open>createPlan\<close>: \<^verbatim>\<open>whenNotPaused\<close>. The argument is a value of the enum, so the
  two \<^verbatim>\<open>InvalidPlanDuration\<close> branches of the source cannot be taken.\<close>

definition planDurationDays :: "PlanDuration \<Rightarrow> nat" where
  "planDurationDays d =
     (case d of
        ONE_MONTH \<Rightarrow> PLAN_DURATION_1_MONTH
      | THREE_MONTHS \<Rightarrow> PLAN_DURATION_3_MONTHS
      | SIX_MONTHS \<Rightarrow> PLAN_DURATION_6_MONTHS
      | ONE_YEAR \<Rightarrow> PLAN_DURATION_1_YEAR)"

definition createPlan :: "Env \<Rightarrow> nat \<Rightarrow> PlanDuration \<Rightarrow> State \<Rightarrow> error + (State \<times> nat)" where
  "createPlan e daily d s =
     (if paused s then Inl EnforcedPause
      else if daily < minDailyDeduction s \<or> daily > maxDailyDeduction s then Inl InvalidDailyAmount
      else if daily * (planDurationDays d div ONE_DAY) > MAX_UINT256 then Inl Panic
      else if block_timestamp e + planDurationDays d > MAX_UINT256 then Inl Panic
      else if totalPlans s + 1 > MAX_UINT256 then Inl Panic
      else
        let pid = totalPlans s + 1;
            p = \<lparr>owner = msg_sender e,
                 dailyAmount = daily,
                 startDate = block_timestamp e,
                 endDate = block_timestamp e + planDurationDays d,
                 totalTarget = daily * (planDurationDays d div ONE_DAY),
                 accumulatedBalance = 0,
                 principalDeposited = 0,
                 yieldEarned = 0,
                 lastDeductionDate = 0,
                 successfulDeductions = 0,
                 missedDeductions = 0,
                 isActive = True,
                 isCompleted = False,
                 duration = d\<rparr>
        in Inr (s\<lparr>totalPlans := pid,
                  plans := (plans s)(pid := p),
                  userPlans := (userPlans s)(msg_sender e := userPlans s (msg_sender e) @ [pid])\<rparr>,
                pid))"

text \<open>The sweep into the yield protocol at the end of \<^verbatim>\<open>executeDeduction\<close>. The
  conjunction of the source short-circuits, so \<^verbatim>\<open>isHealthy()\<close> is only called (and can
  only revert) once the first two tests have passed.\<close>

definition sweepToYield :: "Env \<Rightarrow> State \<Rightarrow> error + State" where
  "sweepToYield e s =
     (let contractBalance = tokenBalances s (thisAddress s) in
      if yieldProtocol s \<noteq> 0 \<and> contractBalance \<ge> minYieldDepositThreshold s then
        (case yp_isHealthy e of
           None \<Rightarrow> Inl ExternalCallReverted
         | Some healthy \<Rightarrow> if healthy then depositToYield e contractBalance s else Inr s)
      else Inr s)"

text \<open>\<^verbatim>\<open>executeDeduction\<close>: \<^verbatim>\<open>validPlanId\<close>, then \<^verbatim>\<open>whenNotPaused\<close>.\<close>

definition executeDeduction :: "Env \<Rightarrow> nat \<Rightarrow> State \<Rightarrow> error + State" where
  "executeDeduction e pid s =
     (if pid = 0 \<or> pid > totalPlans s then Inl InvalidPlanId
      else if paused s then Inl EnforcedPause
      else
        let plan = plans s pid in
        if \<not> isActive plan \<or> isCompleted plan then Inl PlanNotActive
        else if block_timestamp e \<ge> endDate plan then
          Inr (s\<lparr>plans := (plans s)(pid := plan\<lparr>isActive := False, isCompleted := True\<rparr>)\<rparr>)
        else if successfulDeductions plan * ONE_DAY > MAX_UINT256 then Inl Panic
        else if startDate plan + successfulDeductions plan * ONE_DAY > MAX_UINT256 then Inl Panic
        else
          let expectedDeductionDate = startDate plan + successfulDeductions plan * ONE_DAY in
          if lastDeductionDate plan > 0 \<and> lastDeductionDate plan + ONE_HOUR > MAX_UINT256
            then Inl Panic
          else if lastDeductionDate plan > 0
                  \<and> block_timestamp e \<le> lastDeductionDate plan + ONE_HOUR
            then Inl DeductionAlreadyExecuted
          else if lastDeductionDate plan > 0 \<and> expectedDeductionDate < ONE_HOUR then Inl Panic
          else if lastDeductionDate plan > 0
                  \<and> lastDeductionDate plan \<ge> expectedDeductionDate - ONE_HOUR
            then Inl DeductionAlreadyExecuted
          else if expectedDeductionDate < ONE_HOUR then Inl Panic
          else if block_timestamp e < expectedDeductionDate - ONE_HOUR then Inl InvalidParameter
          else
            let userBalance = tokenBalances s (owner plan);
                userAllowance = tokenAllowances s (owner plan) (thisAddress s)
            in
              if userBalance < dailyAmount plan \<or> userAllowance < dailyAmount plan then
                (if missedDeductions plan + 1 > MAX_UINT256 then Inl Panic
                 else Inr (s\<lparr>plans := (plans s)
                              (pid := plan\<lparr>missedDeductions := missedDeductions plan + 1\<rparr>)\<rparr>))
              else
                (case safeTransferFrom (owner plan) (thisAddress s) (dailyAmount plan) s of
                   Inl err \<Rightarrow> Inl err
                 | Inr s1 \<Rightarrow>
                     if accumulatedBalance plan + dailyAmount plan > MAX_UINT256 then Inl Panic
                     else if principalDeposited plan + dailyAmount plan > MAX_UINT256 then Inl Panic
                     else if successfulDeductions plan + 1 > MAX_UINT256 then Inl Panic
                     else if totalPrincipal s1 + dailyAmount plan > MAX_UINT256 then Inl Panic
                     else
                       let plan' = plan\<lparr>accumulatedBalance := accumulatedBalance plan + dailyAmount plan,
                                        principalDeposited := principalDeposited plan + dailyAmount plan,
                                        lastDeductionDate := block_timestamp e,
                                        successfulDeductions := successfulDeductions plan + 1\<rparr>;
                           s2 = s1\<lparr>plans := (plans s1)(pid := plan'),
                                   totalPrincipal := totalPrincipal s1 + dailyAmount plan\<rparr>
                       in sweepToYield e s2))"

text \<open>The block that \<^verbatim>\<open>withdraw\<close>, \<^verbatim>\<open>claimYield\<close> and
  \<^verbatim>\<open>executeEmergencyWithdrawal\<close> each run before paying out: when the contract holds
  less than \<open>amt\<close> and a yield protocol is set, the shortfall is requested from it.\<close>

definition pullFromYield :: "Env \<Rightarrow> nat \<Rightarrow> State \<Rightarrow> error + State" where
  "pullFromYield e amt s =
     (let contractBalance = tokenBalances s (thisAddress s) in
      if amt > contractBalance \<and> yieldProtocol s \<noteq> 0
      then withdrawFromYield e (amt - contractBalance) s
      else Inr s)"

text \<open>The arithmetic of \<^verbatim>\<open>withdraw\<close> on the plan: the requested amount, the penalty,
  the proportional split and the completion flags. The result is the updated plan and
  the amount the owner receives.\<close>

definition settleWithdrawal :: "nat \<Rightarrow> bool \<Rightarrow> nat \<Rightarrow> Plan \<Rightarrow> error + (Plan \<times> nat)" where
  "settleWithdrawal penaltyBps isEarly amt plan =
     (if accumulatedBalance plan + yieldEarned plan > MAX_UINT256 then Inl Panic
      else
        let availableBalance = accumulatedBalance plan + yieldEarned plan;
            requestedAmount = (if amt = 0 then availableBalance else amt)
        in
          if requestedAmount > availableBalance then Inl InvalidWithdrawalAmount
          else if isEarly \<and> requestedAmount * penaltyBps > MAX_UINT256 then Inl Panic
          else
            let penalty = (if isEarly then (requestedAmount * penaltyBps) div 10000 else 0) in
            if isEarly \<and> penalty > requestedAmount then Inl Panic
            else
              let withdrawAmount = (if isEarly then requestedAmount - penalty
                                    else requestedAmount)
              in
                if availableBalance > 0
                   \<and> accumulatedBalance plan * requestedAmount > MAX_UINT256 then Inl Panic
                else if availableBalance > 0
                   \<and> yieldEarned plan * requestedAmount > MAX_UINT256 then Inl Panic
                else
                  let principalToWithdraw =
                        (if availableBalance > 0
                         then (accumulatedBalance plan * requestedAmount) div availableBalance
                         else requestedAmount);
                      yieldToWithdraw =
                        (if availableBalance > 0
                         then (yieldEarned plan * requestedAmount) div availableBalance
                         else 0)
                  in
                    if principalToWithdraw > accumulatedBalance plan then Inl Panic
                    else if yieldToWithdraw > yieldEarned plan then Inl Panic
                    else
                      let plan1 = plan\<lparr>accumulatedBalance :=
                                         accumulatedBalance plan - principalToWithdraw,
                                       yieldEarned := yieldEarned plan - yieldToWithdraw\<rparr>;
                          plan2 = (if accumulatedBalance plan1 = 0 \<and> yieldEarned plan1 = 0
                                   then plan1\<lparr>isActive := False, isCompleted := True\<rparr>
                                   else plan1)
                      in Inr (plan2, withdrawAmount))"

text \<open>\<^verbatim>\<open>withdraw\<close>: \<^verbatim>\<open>validPlanId\<close>, then \<^verbatim>\<open>onlyPlanOwner\<close>; the function carries no pause
  modifier. The result is the new state and \<^verbatim>\<open>withdrawnAmount\<close>, the amount handed to
  \<^verbatim>\<open>safeTransfer\<close>.\<close>

definition withdraw :: "Env \<Rightarrow> nat \<Rightarrow> nat \<Rightarrow> State \<Rightarrow> error + (State \<times> nat)" where
  "withdraw e pid amt s =
     (if pid = 0 \<or> pid > totalPlans s then Inl InvalidPlanId
      else if owner (plans s pid) \<noteq> msg_sender e then Inl Unauthorized
      else if \<not> isActive (plans s pid) \<and> isCompleted (plans s pid) then Inl PlanNotActive
      else
        (case settleWithdrawal (earlyWithdrawalPenalty s)
                (block_timestamp e < endDate (plans s pid)) amt (plans s pid) of
           Inl err \<Rightarrow> Inl err
         | Inr (plan2, withdrawAmount) \<Rightarrow>
             (case pullFromYield e withdrawAmount (s\<lparr>plans := (plans s)(pid := plan2)\<rparr>) of
                Inl err \<Rightarrow> Inl err
              | Inr s2 \<Rightarrow>
                  (case safeTransfer (owner plan2) withdrawAmount s2 of
                     Inl err \<Rightarrow> Inl err
                   | Inr s3 \<Rightarrow> Inr (s3, withdrawAmount)))))"

text \<open>\<^verbatim>\<open>_calculateAndDistributeYield\<close>: the mutating yield path. The result is the new
  state and the yield amount.\<close>

definition calculateAndDistributeYield :: "Env \<Rightarrow> nat \<Rightarrow> State \<Rightarrow> error + (State \<times> nat)" where
  "calculateAndDistributeYield e pid s =
     (let plan = plans s pid in
      if principalDeposited plan = 0 then Inr (s, 0)
      else if totalPrincipal s = 0 \<or> totalYieldShares s = 0 then Inr (s, 0)
      else if principalDeposited plan * totalYieldShares s > MAX_UINT256 then Inl Panic
      else
        let userShare = (principalDeposited plan * totalYieldShares s) div totalPrincipal s in
        (case calculateTimeFactor e plan of
           Inl err \<Rightarrow> Inl err
         | Inr timeFactor \<Rightarrow>
             (case yp_getBalance e of
                None \<Rightarrow> Inl ExternalCallReverted
              | Some yieldBalance \<Rightarrow>
                  if yieldBalance \<le> totalPrincipal s then Inr (s, 0)
                  else
                    let totalYield = yieldBalance - totalPrincipal s in
                    if userShare * totalYield > MAX_UINT256 then Inl Panic
                    else if userShare * totalYield * timeFactor > MAX_UINT256 then Inl Panic
                    else if totalYieldShares s * PRECISION > MAX_UINT256 then Inl Panic
                    else
                      let y1 = (userShare * totalYield * timeFactor)
                                 div (totalYieldShares s * PRECISION)
                      in
                        if y1 * userYieldShareBps s > MAX_UINT256 then Inl Panic
                        else
                          let yieldAmount = (y1 * userYieldShareBps s) div 10000 in
                          if yieldEarned plan + yieldAmount > MAX_UINT256 then Inl Panic
                          else if totalUserYield s + yieldAmount > MAX_UINT256 then Inl Panic
                          else
                            Inr (s\<lparr>plans := (plans s)
                                      (pid := plan\<lparr>yieldEarned := yieldEarned plan + yieldAmount\<rparr>),
                                    totalUserYield := totalUserYield s + yieldAmount\<rparr>,
                                 yieldAmount))))"

text \<open>\<^verbatim>\<open>claimYield\<close>: \<^verbatim>\<open>validPlanId\<close>, then \<^verbatim>\<open>onlyPlanOwner\<close>.\<close>

definition claimYield :: "Env \<Rightarrow> nat \<Rightarrow> State \<Rightarrow> error + (State \<times> nat)" where
  "claimYield e pid s =
     (if pid = 0 \<or> pid > totalPlans s then Inl InvalidPlanId
      else if owner (plans s pid) \<noteq> msg_sender e then Inl Unauthorized
      else if \<not> isActive (plans s pid) \<and> \<not> isCompleted (plans s pid) then Inl PlanNotActive
      else
        (case calculateAndDistributeYield e pid s of
           Inl err \<Rightarrow> Inl err
         | Inr (s1, yieldAmount) \<Rightarrow>
             if yieldAmount = 0 then Inr (s1, 0)
             else
               (case pullFromYield e yieldAmount s1 of
                  Inl err \<Rightarrow> Inl err
                | Inr s2 \<Rightarrow>
                    (case safeTransfer (owner (plans s2 pid)) yieldAmount s2 of
                       Inl err \<Rightarrow> Inl err
                     | Inr s3 \<Rightarrow> Inr (s3, yieldAmount)))))"

text \<open>One iteration of the loop of \<^verbatim>\<open>executeDeductionsBatch\<close>; every \<^verbatim>\<open>continue\<close> of the
  source returns the state as it is.\<close>

definition batchItem :: "Env \<Rightarrow> nat \<Rightarrow> State \<Rightarrow> error + State" where
  "batchItem e pid s =
     (if pid = 0 \<or> pid > totalPlans s then Inr s
      else
        let plan = plans s pid in
        if \<not> isActive plan \<or> isCompleted plan then Inr s
        else if block_timestamp e > endDate plan then
          Inr (s\<lparr>plans := (plans s)(pid := plan\<lparr>isActive := False, isCompleted := True\<rparr>)\<rparr>)
        else if successfulDeductions plan * ONE_DAY > MAX_UINT256 then Inl Panic
        else if startDate plan + successfulDeductions plan * ONE_DAY > MAX_UINT256 then Inl Panic
        else
          let expectedDeductionDate = startDate plan + successfulDeductions plan * ONE_DAY in
          if lastDeductionDate plan \<ge> expectedDeductionDate then Inr s
          else if expectedDeductionDate < ONE_HOUR then Inl Panic
          else if block_timestamp e < expectedDeductionDate - ONE_HOUR then Inr s
          else
            let userBalance = tokenBalances s (owner plan);
                userAllowance = tokenAllowances s (owner plan) (thisAddress s)
            in
              if userBalance < dailyAmount plan \<or> userAllowance < dailyAmount plan then
                (if missedDeductions plan + 1 > MAX_UINT256 then Inl Panic
                 else Inr (s\<lparr>plans := (plans s)
                              (pid := plan\<lparr>missedDeductions := missedDeductions plan + 1\<rparr>)\<rparr>))
              else
                (case safeTransferFrom (owner plan) (thisAddress s) (dailyAmount plan) s of
                   Inl err \<Rightarrow> Inl err
                 | Inr s1 \<Rightarrow>
                     if accumulatedBalance plan + dailyAmount plan > MAX_UINT256 then Inl Panic
                     else if principalDeposited plan + dailyAmount plan > MAX_UINT256 then Inl Panic
                     else if successfulDeductions plan + 1 > MAX_UINT256 then Inl Panic
                     else if totalPrincipal s1 + dailyAmount plan > MAX_UINT256 then Inl Panic
                     else
                       let plan' = plan\<lparr>accumulatedBalance := accumulatedBalance plan + dailyAmount plan,
                                        principalDeposited := principalDeposited plan + dailyAmount plan,
                                        lastDeductionDate := block_timestamp e,
                                        successfulDeductions := successfulDeductions plan + 1\<rparr>
                       in Inr (s1\<lparr>plans := (plans s1)(pid := plan'),
                                  totalPrincipal := totalPrincipal s1 + dailyAmount plan\<rparr>)))"

fun batchLoop :: "Env \<Rightarrow> nat list \<Rightarrow> State \<Rightarrow> error + State" where
  "batchLoop e [] s = Inr s"
| "batchLoop e (pid # pids) s =
     (case batchItem e pid s of
        Inl err \<Rightarrow> Inl err
      | Inr s1 \<Rightarrow> batchLoop e pids s1)"

text \<open>\<^verbatim>\<open>executeDeductionsBatch\<close>: \<^verbatim>\<open>whenNotPaused\<close>; one sweep of the new funds at the end.\<close>

definition executeDeductionsBatch :: "Env \<Rightarrow> nat list \<Rightarrow> State \<Rightarrow> error + State" where
  "executeDeductionsBatch e planIds s =
     (if paused s then Inl EnforcedPause
      else
        let contractBalanceBefore = tokenBalances s (thisAddress s) in
        (case batchLoop e planIds s of
           Inl err \<Rightarrow> Inl err
         | Inr s1 \<Rightarrow>
             let contractBalanceAfter = tokenBalances s1 (thisAddress s1) in
             if yieldProtocol s1 \<noteq> 0 \<and> contractBalanceAfter \<ge> minYieldDepositThreshold s1 then
               (case yp_isHealthy e of
                  None \<Rightarrow> Inl ExternalCallReverted
                | Some healthy \<Rightarrow>
                    if healthy \<and> contractBalanceAfter > contractBalanceBefore
                    then depositToYield e (contractBalanceAfter - contractBalanceBefore) s1
                    else Inr s1)
             else Inr s1))"

section \<open>View functions\<close>

text \<open>\<^verbatim>\<open>getAccumulatedYield\<close>: the read-only yield path.\<close>

definition getAccumulatedYield :: "Env \<Rightarrow> nat \<Rightarrow> State \<Rightarrow> error + nat" where
  "getAccumulatedYield e pid s =
     (if pid = 0 \<or> pid > totalPlans s then Inl InvalidPlanId
      else
        let plan = plans s pid in
        if principalDeposited plan = 0 then Inr 0
        else if totalPrincipal s = 0 \<or> totalYieldShares s = 0 then Inr 0
        else if principalDeposited plan * totalYieldShares s > MAX_UINT256 then Inl Panic
        else
          let userShare = (principalDeposited plan * totalYieldShares s) div totalPrincipal s in
          (case calculateTimeFactor e plan of
             Inl err \<Rightarrow> Inl err
           | Inr timeFactor \<Rightarrow>
               if userShare * timeFactor > MAX_UINT256 then Inl Panic
               else
                 let y1 = (userShare * timeFactor) div PRECISION in
                 if y1 * userYieldShareBps s > MAX_UINT256 then Inl Panic
                 else Inr ((y1 * userYieldShareBps s) div 10000)))"

section \<open>Admin functions\<close>

definition setYieldProtocol :: "Env \<Rightarrow> address \<Rightarrow> State \<Rightarrow> error + State" where
  "setYieldProtocol e newProtocol s =
     (if \<not> roles s DEFAULT_ADMIN_ROLE (msg_sender e) then Inl AccessControlUnauthorizedAccount
      else if newProtocol \<noteq> 0 \<and> code_length e newProtocol = 0 then Inl InvalidYieldProtocol
      else if newProtocol \<noteq> 0 \<and> candidate_isHealthy e newProtocol = None
        then Inl InvalidYieldProtocol
      else if newProtocol \<noteq> 0 \<and> candidate_isHealthy e newProtocol = Some False
        then Inl YieldProtocolUnhealthy
      else Inr (s\<lparr>yieldProtocol := newProtocol\<rparr>))"

definition setEarlyWithdrawalPenalty :: "Env \<Rightarrow> nat \<Rightarrow> State \<Rightarrow> error + State" where
  "setEarlyWithdrawalPenalty e penalty s =
     (if \<not> roles s DEFAULT_ADMIN_ROLE (msg_sender e) then Inl AccessControlUnauthorizedAccount
      else if penalty > MAX_EARLY_WITHDRAWAL_PENALTY then Inl InvalidParameter
      else Inr (s\<lparr>earlyWithdrawalPenalty := penalty\<rparr>))"

definition setDailyDeductionLimits :: "Env \<Rightarrow> nat \<Rightarrow> nat \<Rightarrow> State \<Rightarrow> error + State" where
  "setDailyDeductionLimits e mn mx s =
     (if \<not> roles s DEFAULT_ADMIN_ROLE (msg_sender e) then Inl AccessControlUnauthorizedAccount
      else if mn = 0 \<or> mn \<ge> mx then Inl InvalidParameter
      else Inr (s\<lparr>minDailyDeduction := mn, maxDailyDeduction := mx\<rparr>))"

definition setYieldDistribution :: "Env \<Rightarrow> nat \<Rightarrow> nat \<Rightarrow> State \<Rightarrow> error + State" where
  "setYieldDistribution e userBps feeBps s =
     (if \<not> roles s DEFAULT_ADMIN_ROLE (msg_sender e) then Inl AccessControlUnauthorizedAccount
      else if userBps > 10000 then Inl InvalidParameter
      else Inr (s\<lparr>userYieldShareBps := userBps, protocolFeeBps := feeBps\<rparr>))"

definition setMinYieldDepositThreshold :: "Env \<Rightarrow> nat \<Rightarrow> State \<Rightarrow> error + State" where
  "setMinYieldDepositThreshold e threshold s =
     (if \<not> roles s DEFAULT_ADMIN_ROLE (msg_sender e) then Inl AccessControlUnauthorizedAccount
      else Inr (s\<lparr>minYieldDepositThreshold := threshold\<rparr>))"

definition setEmergencyWithdrawalDelay :: "Env \<Rightarrow> nat \<Rightarrow> State \<Rightarrow> error + State" where
  "setEmergencyWithdrawalDelay e delay s =
     (if \<not> roles s DEFAULT_ADMIN_ROLE (msg_sender e) then Inl AccessControlUnauthorizedAccount
      else Inr (s\<lparr>emergencyWithdrawalDelay := delay\<rparr>))"

text \<open>\<^verbatim>\<open>pause\<close> and \<^verbatim>\<open>unpause\<close>: \<^verbatim>\<open>_pause\<close> is itself \<^verbatim>\<open>whenNotPaused\<close> and \<^verbatim>\<open>_unpause\<close>
  is \<^verbatim>\<open>whenPaused\<close>.\<close>

definition pause :: "Env \<Rightarrow> State \<Rightarrow> error + State" where
  "pause e s =
     (if \<not> roles s DEFAULT_ADMIN_ROLE (msg_sender e) then Inl AccessControlUnauthorizedAccount
      else if paused s then Inl EnforcedPause
      else Inr (s\<lparr>paused := True\<rparr>))"

definition unpause :: "Env \<Rightarrow> State \<Rightarrow> error + State" where
  "unpause e s =
     (if \<not> roles s DEFAULT_ADMIN_ROLE (msg_sender e) then Inl AccessControlUnauthorizedAccount
      else if \<not> paused s then Inl ExpectedPause
      else Inr (s\<lparr>paused := False\<rparr>))"

text \<open>\<^verbatim>\<open>harvestYield\<close>: \<^verbatim>\<open>onlyRole(KEEPER_ROLE)\<close>.\<close>

definition harvestYield :: "Env \<Rightarrow> State \<Rightarrow> error + State" where
  "harvestYield e s =
     (if \<not> roles s KEEPER_ROLE (msg_sender e) then Inl AccessControlUnauthorizedAccount
      else if yieldProtocol s = 0 then Inr s
      else
        (case yp_isHealthy e of
           None \<Rightarrow> Inl ExternalCallReverted
         | Some healthy \<Rightarrow>
             if \<not> healthy then Inl YieldProtocolUnhealthy
             else if lastYieldHarvest s + yieldHarvestInterval s > MAX_UINT256 then Inl Panic
             else if block_timestamp e < lastYieldHarvest s + yieldHarvestInterval s then Inr s
             else
               (case yp_getBalance e of
                  None \<Rightarrow> Inl ExternalCallReverted
                | Some yieldBalance \<Rightarrow>
                    if yieldBalance \<le> totalPrincipal s then Inr s
                    else
                      let totalYield = yieldBalance - totalPrincipal s in
                      if totalYield * userYieldShareBps s > MAX_UINT256 then Inl Panic
                      else
                        let userYield = (totalYield * userYieldShareBps s) div 10000 in
                        if userYield > totalYield then Inl Panic
                        else
                          let protocolYield = totalYield - userYield in
                          (case (if totalYield > 0 then withdrawFromYield e totalYield s
                                 else Inr s) of
                             Inl err \<Rightarrow> Inl err
                           | Inr s1 \<Rightarrow>
                               if totalUserYield s1 + userYield > MAX_UINT256 then Inl Panic
                               else if totalProtocolYield s1 + protocolYield > MAX_UINT256
                                 then Inl Panic
                               else
                                 Inr (s1\<lparr>totalUserYield := totalUserYield s1 + userYield,
                                         totalProtocolYield := totalProtocolYield s1 + protocolYield,
                                         lastYieldHarvest := block_timestamp e\<rparr>)))))"

text \<open>\<^verbatim>\<open>emergencyExitYield\<close>: \<^verbatim>\<open>onlyRole(EMERGENCY_ROLE)\<close>; the call to the protocol is
  not wrapped in \<^verbatim>\<open>try\<close>.\<close>

definition emergencyExitYield :: "Env \<Rightarrow> bytes32 \<Rightarrow> State \<Rightarrow> error + State" where
  "emergencyExitYield e reason s =
     (if \<not> roles s EMERGENCY_ROLE (msg_sender e) then Inl AccessControlUnauthorizedAccount
      else if yieldProtocol s = 0 then Inr s
      else
        (case Option.bind (yp_emergencyWithdraw e) (\<lambda>received. protocolPays received s) of
           None \<Rightarrow> Inl ExternalCallReverted
         | Some s1 \<Rightarrow> Inr (s1\<lparr>totalYieldShares := 0\<rparr>)))"

text \<open>\<^verbatim>\<open>withdrawProtocolFees\<close>: \<^verbatim>\<open>onlyRole(DEFAULT_ADMIN_ROLE)\<close>.\<close>

definition withdrawProtocolFees :: "Env \<Rightarrow> nat \<Rightarrow> address \<Rightarrow> State \<Rightarrow> error + State" where
  "withdrawProtocolFees e amt to s =
     (if \<not> roles s DEFAULT_ADMIN_ROLE (msg_sender e) then Inl AccessControlUnauthorizedAccount
      else if to = 0 then Inl InvalidParameter
      else if amt > totalProtocolYield s then Inl InvalidWithdrawalAmount
      else safeTransfer to amt (s\<lparr>totalProtocolYield := totalProtocolYield s - amt\<rparr>))"

section \<open>Emergency withdrawals\<close>

text \<open>\<^verbatim>\<open>scheduleEmergencyWithdrawal\<close>: \<^verbatim>\<open>onlyRole(EMERGENCY_ROLE)\<close>, then \<^verbatim>\<open>whenPaused\<close>.
  The record is written under the computed identifier whatever was stored there.\<close>

definition scheduleEmergencyWithdrawal ::
  "Env \<Rightarrow> address \<Rightarrow> nat \<Rightarrow> nat \<Rightarrow> bytes32 \<Rightarrow> State \<Rightarrow> error + (State \<times> withdrawalId)" where
  "scheduleEmergencyWithdrawal e usr pid amt reason s =
     (if \<not> roles s EMERGENCY_ROLE (msg_sender e) then Inl AccessControlUnauthorizedAccount
      else if \<not> paused s then Inl ExpectedPause
      else if pid = 0 \<or> pid > totalPlans s then Inl InvalidPlanId
      else if owner (plans s pid) \<noteq> usr then Inl InvalidParameter
      else if block_timestamp e + emergencyWithdrawalDelay s > MAX_UINT256 then Inl Panic
      else
        let wid = (msg_sender e, usr, pid, amt, block_timestamp e, reason);
            w = \<lparr>admin = msg_sender e,
                 user = usr,
                 planId = pid,
                 amount = amt,
                 scheduledTime = block_timestamp e,
                 executionTime = block_timestamp e + emergencyWithdrawalDelay s,
                 reasonHash = reason,
                 executed = False,
                 cancelled = False\<rparr>
        in Inr (s\<lparr>emergencyWithdrawals := (emergencyWithdrawals s)(wid := w)\<rparr>, wid))"

text \<open>\<^verbatim>\<open>executeEmergencyWithdrawal\<close>: \<^verbatim>\<open>onlyRole(EMERGENCY_ROLE)\<close>, then \<^verbatim>\<open>whenPaused\<close>.
  \<open>clampedAmount\<close> is the amount it settles on (\<open>0\<close> asks for everything, and no more
  than the plan holds is paid); \<open>emergencyDebit\<close> is its update of the plan's two
  balances: principal first, the rest from the yield.\<close>

definition clampedAmount :: "nat \<Rightarrow> nat \<Rightarrow> nat" where
  "clampedAmount requested available =
     (let w0 = (if requested = 0 then available else requested)
      in if w0 > available then available else w0)"

definition emergencyDebit :: "nat \<Rightarrow> Plan \<Rightarrow> error + Plan" where
  "emergencyDebit withdrawAmount plan =
     (if withdrawAmount \<ge> accumulatedBalance plan
      then (if withdrawAmount - accumulatedBalance plan > yieldEarned plan then Inl Panic
            else Inr (plan\<lparr>yieldEarned :=
                             yieldEarned plan - (withdrawAmount - accumulatedBalance plan),
                           accumulatedBalance := 0\<rparr>))
      else Inr (plan\<lparr>accumulatedBalance := accumulatedBalance plan - withdrawAmount\<rparr>))"

definition executeEmergencyWithdrawal :: "Env \<Rightarrow> withdrawalId \<Rightarrow> State \<Rightarrow> error + State" where
  "executeEmergencyWithdrawal e wid s =
     (if \<not> roles s EMERGENCY_ROLE (msg_sender e) then Inl AccessControlUnauthorizedAccount
      else if \<not> paused s then Inl ExpectedPause
      else
        let withdrawal = emergencyWithdrawals s wid in
        if admin withdrawal = 0 then Inl InvalidEmergencyWithdrawal
        else if executed withdrawal then Inl EmergencyWithdrawalAlreadyExecuted
        else if cancelled withdrawal then Inl EmergencyWithdrawalIsCancelled
        else if block_timestamp e < executionTime withdrawal then Inl EmergencyWithdrawalNotReady
        else
          let plan = plans s (planId withdrawal) in
          if accumulatedBalance plan + yieldEarned plan > MAX_UINT256 then Inl Panic
          else
            let withdrawAmount = clampedAmount (amount withdrawal)
                                   (accumulatedBalance plan + yieldEarned plan)
            in
              (case pullFromYield e withdrawAmount s of
                 Inl err \<Rightarrow> Inl err
               | Inr s1 \<Rightarrow>
                   (case emergencyDebit withdrawAmount plan of
                      Inl err \<Rightarrow> Inl err
                    | Inr plan1 \<Rightarrow>
                        safeTransfer (user withdrawal) withdrawAmount
                          (s1\<lparr>plans := (plans s1)
                                (planId withdrawal := plan1\<lparr>isActive := False, isCompleted := True\<rparr>),
                              emergencyWithdrawals := (emergencyWithdrawals s1)
                                (wid := withdrawal\<lparr>executed := True\<rparr>)\<rparr>))))"

text \<open>\<^verbatim>\<open>cancelEmergencyWithdrawal\<close>: \<^verbatim>\<open>onlyRole(EMERGENCY_ROLE)\<close> and no pause modifier.\<close>

definition cancelEmergencyWithdrawal :: "Env \<Rightarrow> withdrawalId \<Rightarrow> State \<Rightarrow> error + State" where
  "cancelEmergencyWithdrawal e wid s =
     (if \<not> roles s EMERGENCY_ROLE (msg_sender e) then Inl AccessControlUnauthorizedAccount
      else
        let withdrawal = emergencyWithdrawals s wid in
        if admin withdrawal = 0 then Inl InvalidEmergencyWithdrawal
        else if executed withdrawal then Inl EmergencyWithdrawalAlreadyExecuted
        else if cancelled withdrawal then Inl EmergencyWithdrawalIsCancelled
        else Inr (s\<lparr>emergencyWithdrawals := (emergencyWithdrawals s)
                      (wid := withdrawal\<lparr>cancelled := True\<rparr>)\<rparr>))"

section \<open>Role management inherited from AccessControl\<close>

text \<open>Every role of the contract is administered by \<open>DEFAULT_ADMIN_ROLE\<close>.\<close>

definition grantRole :: "Env \<Rightarrow> role \<Rightarrow> address \<Rightarrow> State \<Rightarrow> error + State" where
  "grantRole e r account s =
     (if \<not> roles s DEFAULT_ADMIN_ROLE (msg_sender e) then Inl AccessControlUnauthorizedAccount
      else Inr (s\<lparr>roles := (roles s)(r := (roles s r)(account := True))\<rparr>))"

definition revokeRole :: "Env \<Rightarrow> role \<Rightarrow> address \<Rightarrow> State \<Rightarrow> error + State" where
  "revokeRole e r account s =
     (if \<not> roles s DEFAULT_ADMIN_ROLE (msg_sender e) then Inl AccessControlUnauthorizedAccount
      else Inr (s\<lparr>roles := (roles s)(r := (roles s r)(account := False))\<rparr>))"

definition renounceRole :: "Env \<Rightarrow> role \<Rightarrow> address \<Rightarrow> State \<Rightarrow> error + State" where
  "renounceRole e r callerConfirmation s =
     (if callerConfirmation \<noteq> msg_sender e then Inl AccessControlBadConfirmation
      else Inr (s\<lparr>roles := (roles s)(r := (roles s r)(msg_sender e := False))\<rparr>))"

section \<open>The contract as a transition system\<close>

text \<open>One constructor for each state-changing entry point of the contract. The functions
  inherited from \<^verbatim>\<open>Ownable2Step\<close> only move an owner address that no function of the
  contract reads, and are left out.\<close>

datatype call =
    CreatePlan nat PlanDuration
  | ExecuteDeduction nat
  | ExecuteDeductionsBatch "nat list"
  | Withdraw nat nat
  | ClaimYield nat
  | SetYieldProtocol address
  | SetEarlyWithdrawalPenalty nat
  | SetDailyDeductionLimits nat nat
  | SetYieldDistribution nat nat
  | SetMinYieldDepositThreshold nat
  | SetEmergencyWithdrawalDelay nat
  | HarvestYield
  | EmergencyExitYield bytes32
  | ScheduleEmergencyWithdrawal address nat nat bytes32
  | ExecuteEmergencyWithdrawal withdrawalId
  | CancelEmergencyWithdrawal withdrawalId
  | WithdrawProtocolFees nat address
  | Pause
  | Unpause
  | GrantRole role address
  | RevokeRole role address
  | RenounceRole role address

definition dropResult :: "error + (State \<times> 'a) \<Rightarrow> error + State" where
  "dropResult r = (case r of Inl err \<Rightarrow> Inl err | Inr (s, x) \<Rightarrow> Inr s)"

fun step :: "Env \<Rightarrow> call \<Rightarrow> State \<Rightarrow> error + State" where
  "step e (CreatePlan daily d) s = dropResult (createPlan e daily d s)"
| "step e (ExecuteDeduction pid) s = executeDeduction e pid s"
| "step e (ExecuteDeductionsBatch pids) s = executeDeductionsBatch e pids s"
| "step e (Withdraw pid amt) s = dropResult (withdraw e pid amt s)"
| "step e (ClaimYield pid) s = dropResult (claimYield e pid s)"
| "step e (SetYieldProtocol a) s = setYieldProtocol e a s"
| "step e (SetEarlyWithdrawalPenalty p) s = setEarlyWithdrawalPenalty e p s"
| "step e (SetDailyDeductionLimits mn mx) s = setDailyDeductionLimits e mn mx s"
| "step e (SetYieldDistribution u f) s = setYieldDistribution e u f s"
| "step e (SetMinYieldDepositThreshold t) s = setMinYieldDepositThreshold e t s"
| "step e (SetEmergencyWithdrawalDelay d) s = setEmergencyWithdrawalDelay e d s"
| "step e HarvestYield s = harvestYield e s"
| "step e (EmergencyExitYield r) s = emergencyExitYield e r s"
| "step e (ScheduleEmergencyWithdrawal u pid amt r) s =
     dropResult (scheduleEmergencyWithdrawal e u pid amt r s)"
| "step e (ExecuteEmergencyWithdrawal wid) s = executeEmergencyWithdrawal e wid s"
| "step e (CancelEmergencyWithdrawal wid) s = cancelEmergencyWithdrawal e wid s"
| "step e (WithdrawProtocolFees amt to) s = withdrawProtocolFees e amt to s"
| "step e Pause s = pause e s"
| "step e Unpause s = unpause e s"
| "step e (GrantRole r a) s = grantRole e r a s"
| "step e (RevokeRole r a) s = revokeRole e r a s"
| "step e (RenounceRole r a) s = renounceRole e r a s"

text \<open>A run: calls executed in order, each in its own environment; a reverted call leaves
  the state as it was and the run goes on.\<close>

fun run :: "(Env \<times> call) list \<Rightarrow> State \<Rightarrow> State" where
  "run [] s = s"
| "run ((e, c) # cs) s =
     (case step e c s of Inl err \<Rightarrow> run cs s | Inr s1 \<Rightarrow> run cs s1)"

section \<open>Deployment and a test fixture\<close>

text \<open>The value of a storage slot that was never written: every field is zero.\<close>

definition zeroPlan :: Plan where
  "zeroPlan =
     \<lparr>owner = 0, dailyAmount = 0, startDate = 0, endDate = 0, totalTarget = 0,
      accumulatedBalance = 0, principalDeposited = 0, yieldEarned = 0, lastDeductionDate = 0,
      successfulDeductions = 0, missedDeductions = 0, isActive = False, isCompleted = False,
      duration = ONE_MONTH\<rparr>"

definition zeroRequest :: EmergencyWithdrawal where
  "zeroRequest =
     \<lparr>admin = 0, user = 0, planId = 0, amount = 0, scheduledTime = 0, executionTime = 0,
      reasonHash = 0, executed = False, cancelled = False\<rparr>"

text \<open>The constructor. \<open>self\<close> is the address the contract is deployed at; the token
  ledger is the one found at deployment.\<close>

definition deploy ::
  "Env \<Rightarrow> address \<Rightarrow> address \<Rightarrow> (address \<Rightarrow> nat) \<Rightarrow> (address \<Rightarrow> address \<Rightarrow> nat)
     \<Rightarrow> nat \<Rightarrow> nat \<Rightarrow> nat \<Rightarrow> nat \<Rightarrow> nat \<Rightarrow> error + State" where
  "deploy e self usdcToken balances allowances penalty mn mx feeBps userBps =
     (if usdcToken = 0 then Inl InvalidParameter
      else if penalty > MAX_EARLY_WITHDRAWAL_PENALTY then Inl InvalidParameter
      else if mn = 0 \<or> mn \<ge> mx then Inl InvalidParameter
      else if userBps > 10000 then Inl InvalidParameter
      else
        Inr \<lparr>thisAddress = self,
             yieldProtocol = 0,
             totalPlans = 0,
             earlyWithdrawalPenalty = penalty,
             minDailyDeduction = mn,
             maxDailyDeduction = mx,
             protocolFeeBps = feeBps,
             userYieldShareBps = userBps,
             minYieldDepositThreshold = MIN_YIELD_DEPOSIT_THRESHOLD,
             totalPrincipal = 0,
             totalUserYield = 0,
             totalProtocolYield = 0,
             totalYieldShares = 0,
             emergencyWithdrawalDelay = 48 * 3600,
             plans = (\<lambda>_. zeroPlan),
             userPlans = (\<lambda>_. []),
             emergencyWithdrawals = (\<lambda>_. zeroRequest),
             lastYieldHarvest = 0,
             yieldHarvestInterval = 86400,
             paused = False,
             roles = (\<lambda>r a. a = msg_sender e),
             tokenBalances = balances,
             tokenAllowances = allowances\<rparr>)"

text \<open>The fixture of the repository's tests, the state the constructor returns
  (\<open>fixture_deployed\<close> below): the deployer is account \<open>1\<close>, the contract lives at
  \<open>100\<close>, the token at \<open>200\<close>, the penalty is 10 percent, the daily amount is between 1
  and 100 USDC (6 decimals), the user share is 90 percent. Account \<open>7\<close> is a saver
  holding 10000 USDC who has approved the contract without limit. No yield protocol is
  set. \<open>callEnv sender now\<close> is the environment of a call in which no yield protocol
  answers.\<close>

definition callEnv :: "address \<Rightarrow> nat \<Rightarrow> Env" where
  "callEnv sender now =
     \<lparr>msg_sender = sender, block_timestamp = now, yp_isHealthy = None, yp_getBalance = None,
      yp_deposit = (\<lambda>_. None), yp_withdraw = (\<lambda>_. None), yp_emergencyWithdraw = None,
      code_length = (\<lambda>_. 0), candidate_isHealthy = (\<lambda>_. None)\<rparr>"

definition fixture :: State where
  "fixture =
     \<lparr>thisAddress = 100,
      yieldProtocol = 0,
      totalPlans = 0,
      earlyWithdrawalPenalty = 1000,
      minDailyDeduction = 1000000,
      maxDailyDeduction = 100000000,
      protocolFeeBps = 500,
      userYieldShareBps = 9000,
      minYieldDepositThreshold = 1000000000,
      totalPrincipal = 0,
      totalUserYield = 0,
      totalProtocolYield = 0,
      totalYieldShares = 0,
      emergencyWithdrawalDelay = 172800,
      plans = (\<lambda>_. zeroPlan),
      userPlans = (\<lambda>_. []),
      emergencyWithdrawals = (\<lambda>_. zeroRequest),
      lastYieldHarvest = 0,
      yieldHarvestInterval = 86400,
      paused = False,
      roles = (\<lambda>r a. a = 1),
      tokenBalances = (\<lambda>a. if a = 7 then 10000000000 else 0),
      tokenAllowances = (\<lambda>a b. if a = 7 \<and> b = 100 then MAX_UINT256 else 0)\<rparr>"

text \<open>The states of a short history of the fixture. The saver opens a 30-day plan of 10
  USDC a day at time \<open>1700000000\<close>; the keeper runs the first deduction at once.\<close>

definition planCreated :: State where
  "planCreated = run [(callEnv 7 1700000000, CreatePlan 10000000 ONE_MONTH)] fixture"

definition afterDeposit :: State where
  "afterDeposit = run [(callEnv 1 1700000000, ExecuteDeduction 1)] planCreated"

text \<open>Thirty days later the keeper calls \<^verbatim>\<open>executeDeduction\<close> again: the maturity
  transition.\<close>

definition matured :: State where
  "matured = run [(callEnv 1 1702592000, ExecuteDeduction 1)] afterDeposit"

text \<open>Instead, the admin pauses the contract shortly after the first deduction, and
  schedules an emergency withdrawal of the whole plan for the saver.\<close>

definition pausedAfterDeposit :: State where
  "pausedAfterDeposit = run [(callEnv 1 1700000200, Pause)] afterDeposit"

definition scheduled :: State where
  "scheduled = run [(callEnv 1 1700000300, ScheduleEmergencyWithdrawal 7 1 0 42)] pausedAfterDeposit"

definition scheduledId :: withdrawalId where
  "scheduledId = (1, 7, 1, 0, 1700000300, 42)"

text \<open>A second saver, account \<open>8\<close>, holds no USDC and opens a plan of her own.\<close>

definition unfundedPlan :: State where
  "unfundedPlan = run [(callEnv 8 1700000000, CreatePlan 10000000 ONE_MONTH)] fixture"

text \<open>The saver withdraws early and in part; or waits for the end date and withdraws all,
  without any maturity transition in between.\<close>

definition afterEarlyWithdraw :: State where
  "afterEarlyWithdraw = run [(callEnv 7 1700000100, Withdraw 1 1000001)] afterDeposit"

definition afterMatureWithdraw :: State where
  "afterMatureWithdraw = run [(callEnv 7 1702592001, Withdraw 1 0)] afterDeposit"

text \<open>The saver withdraws while the contract is paused. The admin unpauses with the
  request still scheduled, and cancels it then.\<close>

definition withdrawnWhilePaused :: State where
  "withdrawnWhilePaused = run [(callEnv 7 1700000250, Withdraw 1 0)] pausedAfterDeposit"

definition unpausedScheduled :: State where
  "unpausedScheduled = run [(callEnv 1 1700000350, Unpause)] scheduled"

definition cancelledUnpaused :: State where
  "cancelledUnpaused =
     run [(callEnv 1 1700000360, CancelEmergencyWithdrawal scheduledId)] unpausedScheduled"

text \<open>The admin gives account \<open>3\<close> the emergency role, and account \<open>3\<close> executes the
  scheduled request when its 48 hours are over.\<close>

definition responderGranted :: State where
  "responderGranted = run [(callEnv 1 1700000400, GrantRole EMERGENCY_ROLE 3)] scheduled"

definition afterEmergency :: State where
  "afterEmergency =
     run [(callEnv 3 1700173100, ExecuteEmergencyWithdrawal scheduledId)] responderGranted"

text \<open>In the block of the scheduling call the admin cancels the request and schedules it
  again with the same arguments; 48 hours later the request is executed.\<close>

definition cancelledRequest :: State where
  "cancelledRequest =
     run [(callEnv 1 1700000300, CancelEmergencyWithdrawal scheduledId)] scheduled"

definition rescheduled :: State where
  "rescheduled =
     run [(callEnv 1 1700000300, ScheduleEmergencyWithdrawal 7 1 0 42)] cancelledRequest"

definition afterRescheduledExecution :: State where
  "afterRescheduledExecution =
     run [(callEnv 1 1700173100, ExecuteEmergencyWithdrawal scheduledId)] rescheduled"

text \<open>The keeper runs the deduction of the unfunded plan: it is recorded as missed.\<close>

definition afterMissed :: State where
  "afterMissed = run [(callEnv 1 1700000000, ExecuteDeduction 1)] unfundedPlan"

text \<open>A fixture with a yield protocol at address \<open>300\<close>. \<open>mockEnv sender now apy
  deposited held\<close> is the environment of a call in which the repository's
  \<^verbatim>\<open>MockYieldProtocol\<close> answers, with the given rate in basis points, with \<open>deposited\<close>
  as its \<^verbatim>\<open>totalDeposited\<close> (and, shares being issued one for one, as its
  \<^verbatim>\<open>totalShares\<close> and the shares of the contract, its only depositor), and holding
  \<open>held\<close> tokens. The admin lowers the pooling threshold to 5 USDC, so the first
  deduction of the saver's plan is swept into the protocol.\<close>

definition candidateEnv :: "address \<Rightarrow> nat \<Rightarrow> Env" where
  "candidateEnv sender now =
     (callEnv sender now)\<lparr>code_length := (\<lambda>a. if a = 300 then 1 else 0),
                           candidate_isHealthy := (\<lambda>a. Some True)\<rparr>"

definition mockEnv :: "address \<Rightarrow> nat \<Rightarrow> nat \<Rightarrow> nat \<Rightarrow> nat \<Rightarrow> Env" where
  "mockEnv sender now apy deposited held =
     (callEnv sender now)
       \<lparr>yp_isHealthy := Some True,
        yp_getBalance := Some (deposited + (deposited * apy * 365) div (10000 * 365)),
        yp_deposit := (\<lambda>amt. Some amt),
        yp_withdraw :=
          (\<lambda>shares.
             if shares > deposited \<or> deposited = 0 then None
             else
               let principal = (shares * deposited) div deposited;
                   yieldEarned = (principal * apy * 365) div (10000 * 365)
               in Some (principal + yieldEarned)),
        yp_emergencyWithdraw := Some held\<rparr>"

definition yieldConfigured :: State where
  "yieldConfigured =
     run [(candidateEnv 1 1699990000, SetYieldProtocol 300),
          (callEnv 1 1699990000, SetMinYieldDepositThreshold 5000000),
          (callEnv 7 1700000000, CreatePlan 10000000 ONE_MONTH)] fixture"

definition yieldDeposited :: State where
  "yieldDeposited = run [(mockEnv 1 1700000000 500 0 0, ExecuteDeduction 1)] yieldConfigured"

text \<open>A day later the protocol, holding the 10 USDC, reports 10.5 USDC and the keeper
  harvests; then the admin withdraws the protocol's share of the harvest to account
  \<open>9\<close>.\<close>

definition harvested :: State where
  "harvested =
     run [(mockEnv 1 1700086400 500 10000000 10000000, HarvestYield)] yieldDeposited"

definition feesWithdrawn :: State where
  "feesWithdrawn = run [(callEnv 1 1700086500, WithdrawProtocolFees 50000 9)] harvested"

text \<open>Or, a day after the first deduction, the admin raises the pooling threshold again and
  the second deduction stays in the contract: 10 USDC in the protocol, 10 USDC on hand.
  The admin pauses, schedules an emergency withdrawal of 11.89 USDC for the saver and
  gives account \<open>3\<close> the emergency role; 48 hours later account \<open>3\<close> executes the
  request, and 1.89 USDC have to come from the protocol.\<close>

definition yieldSecondDeposit :: State where
  "yieldSecondDeposit =
     run [(callEnv 1 1700080000, SetMinYieldDepositThreshold 1000000000),
          (callEnv 1 1700086400, ExecuteDeduction 1)] yieldDeposited"

definition yieldScheduled :: State where
  "yieldScheduled =
     run [(callEnv 1 1700086500, Pause),
          (callEnv 1 1700086600, ScheduleEmergencyWithdrawal 7 1 11890000 42),
          (callEnv 1 1700086700, GrantRole EMERGENCY_ROLE 3)] yieldSecondDeposit"

definition pulledId :: withdrawalId where
  "pulledId = (1, 7, 1, 11890000, 1700086600, 42)"

definition afterPulledEmergency :: State where
  "afterPulledEmergency =
     run [(mockEnv 3 1700259400 500 10000000 10000000, ExecuteEmergencyWithdrawal pulledId)]
       yieldScheduled"

text \<open>With the delay set to zero, the admin schedules a withdrawal of 4 USDC, executes it,
  schedules it again and executes it again, all in one block.\<close>

definition zeroDelay :: State where
  "zeroDelay = run [(callEnv 1 1700000250, SetEmergencyWithdrawalDelay 0)] pausedAfterDeposit"

definition partialId :: withdrawalId where
  "partialId = (1, 7, 1, 4000000, 1700000300, 42)"

definition executedOnce :: State where
  "executedOnce =
     run [(callEnv 1 1700000300, ScheduleEmergencyWithdrawal 7 1 4000000 42),
          (callEnv 1 1700000300, ExecuteEmergencyWithdrawal partialId)] zeroDelay"

definition scheduledTwice :: State where
  "scheduledTwice =
     run [(callEnv 1 1700000300, ScheduleEmergencyWithdrawal 7 1 4000000 42)] executedOnce"

definition executedTwice :: State where
  "executedTwice =
     run [(callEnv 1 1700000300, ExecuteEmergencyWithdrawal partialId)] scheduledTwice"

text \<open>The four global counters of \<open>s\<close> are not above those of \<open>s'\<close>.\<close>

abbreviation countersNotDecreased :: "State \<Rightarrow> State \<Rightarrow> bool" where
  "countersNotDecreased s s' \<equiv>
     totalPlans s \<le> totalPlans s' \<and> totalPrincipal s \<le> totalPrincipal s'
     \<and> totalUserYield s \<le> totalUserYield s' \<and> totalProtocolYield s \<le> totalProtocolYield s'"

text \<open>The state of the yield fixture after \<^verbatim>\<open>_calculateAndDistributeYield\<close> has credited
  the plan half-way through its term, the protocol reporting 10.5 USDC.\<close>

definition yieldCredited :: State where
  "yieldCredited =
     yieldDeposited\<lparr>plans := (plans yieldDeposited)
                       (1 := (plans yieldDeposited 1)\<lparr>yieldEarned := 225000\<rparr>),
                    totalUserYield := 225000\<rparr>"

section \<open>Evaluation of the fixture\<close>

lemmas evals =
  fixture_def zeroPlan_def zeroRequest_def callEnv_def MAX_EARLY_WITHDRAWAL_PENALTY_def createPlan_def
  executeDeduction_def withdraw_def dropResult_def planDurationDays_def
  PLAN_DURATION_1_MONTH_def ONE_DAY_def ONE_HOUR_def MAX_UINT256_def safeTransferFrom_def
  safeTransfer_def erc20_move_def sweepToYield_def Let_def MIN_YIELD_DEPOSIT_THRESHOLD_def
  planCreated_def afterDeposit_def matured_def pausedAfterDeposit_def scheduled_def
  scheduledId_def unfundedPlan_def pause_def unpause_def settleWithdrawal_def
  pullFromYield_def scheduleEmergencyWithdrawal_def executeEmergencyWithdrawal_def
  cancelEmergencyWithdrawal_def emergencyDebit_def afterEarlyWithdraw_def
  afterMatureWithdraw_def clampedAmount_def grantRole_def revokeRole_def withdrawnWhilePaused_def
  unpausedScheduled_def cancelledUnpaused_def responderGranted_def afterEmergency_def
  cancelledRequest_def rescheduled_def afterRescheduledExecution_def
  afterMissed_def candidateEnv_def mockEnv_def yieldConfigured_def yieldDeposited_def
  harvested_def feesWithdrawn_def setYieldProtocol_def setMinYieldDepositThreshold_def
  depositToYield_def withdrawFromYield_def harvestYield_def withdrawProtocolFees_def
  calculateTimeFactor_def PRECISION_def yieldCredited_def
  zeroDelay_def partialId_def executedOnce_def scheduledTwice_def executedTwice_def
  setEmergencyWithdrawalDelay_def protocolPulls_def protocolPays_def
  yieldSecondDeposit_def yieldScheduled_def pulledId_def afterPulledEmergency_def

lemma fixture_deployed:
  "deploy (callEnv 1 1699900000) 100 200
     (\<lambda>a. if a = 7 then 10000000000 else 0)
     (\<lambda>a b. if a = 7 \<and> b = 100 then MAX_UINT256 else 0)
     1000 1000000 100000000 500 9000 = Inr fixture"
  by (simp add: deploy_def fixture_def callEnv_def MAX_EARLY_WITHDRAWAL_PENALTY_def
      MIN_YIELD_DEPOSIT_THRESHOLD_def)

lemma afterDeposit_plan:
  "plans afterDeposit 1 =
     \<lparr>owner = 7, dailyAmount = 10000000, startDate = 1700000000, endDate = 1702592000,
      totalTarget = 300000000, accumulatedBalance = 10000000, principalDeposited = 10000000,
      yieldEarned = 0, lastDeductionDate = 1700000000, successfulDeductions = 1,
      missedDeductions = 0, isActive = True, isCompleted = False, duration = ONE_MONTH\<rparr>"
  by (simp add: evals)

lemma afterDeposit_globals:
  "totalPlans afterDeposit = 1 \<and> totalPrincipal afterDeposit = 10000000
   \<and> totalUserYield afterDeposit = 0 \<and> totalProtocolYield afterDeposit = 0
   \<and> earlyWithdrawalPenalty afterDeposit = 1000 \<and> thisAddress afterDeposit = 100
   \<and> \<not> paused afterDeposit"
  by (simp add: evals)

lemma afterDeposit_tokens:
  "tokenBalances afterDeposit 7 = 9990000000 \<and> tokenBalances afterDeposit 100 = 10000000
   \<and> tokenBalances afterDeposit 1 = 0 \<and> tokenBalances afterDeposit 3 = 0"
  by (simp add: evals)

lemma matured_plan:
  "plans matured 1 =
     \<lparr>owner = 7, dailyAmount = 10000000, startDate = 1700000000, endDate = 1702592000,
      totalTarget = 300000000, accumulatedBalance = 10000000, principalDeposited = 10000000,
      yieldEarned = 0, lastDeductionDate = 1700000000, successfulDeductions = 1,
      missedDeductions = 0, isActive = False, isCompleted = True, duration = ONE_MONTH\<rparr>"
  by (simp add: evals)

lemma early_withdraw_result:
  "withdraw (callEnv 7 1700000100) 1 1000001 afterDeposit = Inr (afterEarlyWithdraw, 900001)"
  by (simp add: evals)

lemma mature_withdraw_result:
  "withdraw (callEnv 7 1702592001) 1 0 afterDeposit = Inr (afterMatureWithdraw, 10000000)"
  by (simp add: evals)

lemma afterEarlyWithdraw_plan:
  "plans afterEarlyWithdraw 1 =
     \<lparr>owner = 7, dailyAmount = 10000000, startDate = 1700000000, endDate = 1702592000,
      totalTarget = 300000000, accumulatedBalance = 8999999, principalDeposited = 10000000,
      yieldEarned = 0, lastDeductionDate = 1700000000, successfulDeductions = 1,
      missedDeductions = 0, isActive = True, isCompleted = False, duration = ONE_MONTH\<rparr>"
  by (simp add: evals)

lemma afterEarlyWithdraw_globals:
  "totalPlans afterEarlyWithdraw = 1 \<and> totalPrincipal afterEarlyWithdraw = 10000000
   \<and> totalUserYield afterEarlyWithdraw = 0 \<and> totalProtocolYield afterEarlyWithdraw = 0
   \<and> tokenBalances afterEarlyWithdraw 7 = 9990900001
   \<and> tokenBalances afterEarlyWithdraw 100 = 9099999"
  by (simp add: evals)

lemma afterMatureWithdraw_tokens:
  "tokenBalances afterMatureWithdraw 7 = 10000000000"
  by (simp add: evals)

section \<open>The building blocks of a payout\<close>

lemma erc20_move_frame:
  assumes "erc20_move from to v s = Inr s'"
  shows "s' = s\<lparr>tokenBalances :=
            ((tokenBalances s)(from := tokenBalances s from - v))
              (to := ((tokenBalances s)(from := tokenBalances s from - v)) to + v)\<rparr>
         \<and> v \<le> tokenBalances s from \<and> from \<noteq> 0 \<and> to \<noteq> 0"
proof -
  have a: "from \<noteq> 0" "to \<noteq> 0" "\<not> tokenBalances s from < v"
    using assms unfolding erc20_move_def
    by (simp_all split: if_split_asm)
  from a assms show ?thesis
    unfolding erc20_move_def Let_def
    by simp
qed

lemma protocolPays_frame:
  assumes "protocolPays v s = Some s1"
  shows "s1 = s\<lparr>tokenBalances := tokenBalances s1\<rparr>
       \<and> (\<forall>a. a \<noteq> thisAddress s \<longrightarrow> tokenBalances s1 a \<le> tokenBalances s a)
       \<and> (\<forall>a. a \<noteq> thisAddress s \<and> a \<noteq> yieldProtocol s \<longrightarrow>
              tokenBalances s1 a = tokenBalances s a)"
proof -
  from assms have "erc20_move (yieldProtocol s) (thisAddress s) v s = Inr s1"
    unfolding protocolPays_def by (simp split: sum.split_asm)
  from erc20_move_frame[OF this] obtain tb where
    e: "s1 = s\<lparr>tokenBalances := tb\<rparr>"
    and tb: "tb = ((tokenBalances s)(yieldProtocol s := tokenBalances s (yieldProtocol s) - v))
              (thisAddress s := ((tokenBalances s)
                   (yieldProtocol s := tokenBalances s (yieldProtocol s) - v)) (thisAddress s) + v)"
    by blast
  show ?thesis by (simp add: e tb)
qed

lemma protocolPulls_frame:
  assumes "protocolPulls v s = Some s1"
  shows "s1 = s\<lparr>tokenBalances := tokenBalances s1\<rparr>"
proof -
  from assms have "erc20_move (thisAddress s) (yieldProtocol s) v s = Inr s1"
    unfolding protocolPulls_def by (simp split: sum.split_asm)
  from erc20_move_frame[OF this] obtain tb where e: "s1 = s\<lparr>tokenBalances := tb\<rparr>"
    by blast
  show ?thesis by (simp add: e)
qed

lemma withdrawFromYield_frame:
  assumes "withdrawFromYield e a s = Inr s'"
  shows "s' = s\<lparr>totalYieldShares := totalYieldShares s', tokenBalances := tokenBalances s'\<rparr>
       \<and> (\<forall>a. a \<noteq> thisAddress s \<longrightarrow> tokenBalances s' a \<le> tokenBalances s a)
       \<and> (\<forall>a. a \<noteq> thisAddress s \<and> a \<noteq> yieldProtocol s \<longrightarrow>
              tokenBalances s' a = tokenBalances s a)"
proof -
  have "s' = s \<or> (\<exists>v s1 sh. protocolPays v s = Some s1 \<and> s' = s1\<lparr>totalYieldShares := sh\<rparr>)"
    using assms unfolding withdrawFromYield_def Let_def
    by (auto split: if_split_asm option.split_asm simp add: bind_eq_Some_conv)
  then show ?thesis
  proof
    assume "s' = s"
    then show ?thesis by simp
  next
    assume "\<exists>v s1 sh. protocolPays v s = Some s1 \<and> s' = s1\<lparr>totalYieldShares := sh\<rparr>"
    then obtain v s1 sh where p: "protocolPays v s = Some s1"
      and s': "s' = s1\<lparr>totalYieldShares := sh\<rparr>" by blast
    from protocolPays_frame[OF p] obtain tb where
      s1: "s1 = s\<lparr>tokenBalances := tb\<rparr>"
      and le: "\<forall>a. a \<noteq> thisAddress s \<longrightarrow> tb a \<le> tokenBalances s a"
      and eq: "\<forall>a. a \<noteq> thisAddress s \<and> a \<noteq> yieldProtocol s \<longrightarrow> tb a = tokenBalances s a"
      by blast
    from le eq show ?thesis by (simp add: s' s1)
  qed
qed

lemma pullFromYield_frame:
  assumes "pullFromYield e a s = Inr s'"
  shows "s' = s\<lparr>totalYieldShares := totalYieldShares s', tokenBalances := tokenBalances s'\<rparr>
       \<and> (\<forall>a. a \<noteq> thisAddress s \<longrightarrow> tokenBalances s' a \<le> tokenBalances s a)
       \<and> (\<forall>a. a \<noteq> thisAddress s \<and> a \<noteq> yieldProtocol s \<longrightarrow>
              tokenBalances s' a = tokenBalances s a)"
proof (cases "a > tokenBalances s (thisAddress s) \<and> yieldProtocol s \<noteq> 0")
  case True
  with assms have "withdrawFromYield e (a - tokenBalances s (thisAddress s)) s = Inr s'"
    by (simp add: pullFromYield_def)
  then show ?thesis by (rule withdrawFromYield_frame)
next
  case False
  with assms have "s' = s" by (auto simp add: pullFromYield_def)
  then show ?thesis by simp
qed

lemma safeTransfer_frame:
  assumes "safeTransfer to v s = Inr s'"
  shows "s' = s\<lparr>tokenBalances :=
            ((tokenBalances s)(thisAddress s := tokenBalances s (thisAddress s) - v))
              (to := ((tokenBalances s)
                        (thisAddress s := tokenBalances s (thisAddress s) - v)) to + v)\<rparr>
         \<and> v \<le> tokenBalances s (thisAddress s) \<and> to \<noteq> 0"
proof -
  have a: "thisAddress s \<noteq> 0" "to \<noteq> 0" "\<not> tokenBalances s (thisAddress s) < v"
    using assms unfolding safeTransfer_def erc20_move_def
    by (simp_all split: if_split_asm)
  from a assms show ?thesis
    unfolding safeTransfer_def erc20_move_def Let_def
    by simp
qed

lemma settleWithdrawal_frame:
  assumes "settleWithdrawal pen early amt plan = Inr (plan2, w)"
  shows "plan2 = plan\<lparr>accumulatedBalance := accumulatedBalance plan2,
                       yieldEarned := yieldEarned plan2,
                       isActive := isActive plan2, isCompleted := isCompleted plan2\<rparr>"
proof (cases "amt = 0"; cases early; cases "accumulatedBalance plan + yieldEarned plan > 0")
qed (use assms in \<open>auto simp add: settleWithdrawal_def Let_def split: if_split_asm\<close>)

lemma settleWithdrawal_paid:
  assumes "settleWithdrawal pen early amt plan = Inr (plan2, w)"
  shows "w = (if early
              then (if amt = 0 then accumulatedBalance plan + yieldEarned plan else amt)
                   - ((if amt = 0 then accumulatedBalance plan + yieldEarned plan else amt)
                        * pen) div 10000
              else (if amt = 0 then accumulatedBalance plan + yieldEarned plan else amt))"
proof (cases "amt = 0"; cases early; cases "accumulatedBalance plan + yieldEarned plan > 0")
qed (use assms in \<open>auto simp add: settleWithdrawal_def Let_def split: if_split_asm\<close>)

lemma withdraw_success:
  assumes "withdraw e pid amt s = Inr (s', paid)"
  obtains plan2 s2 where
    "pid \<noteq> 0" "pid \<le> totalPlans s" "owner (plans s pid) = msg_sender e"
    "\<not> (\<not> isActive (plans s pid) \<and> isCompleted (plans s pid))"
    "settleWithdrawal (earlyWithdrawalPenalty s) (block_timestamp e < endDate (plans s pid))
        amt (plans s pid) = Inr (plan2, paid)"
    "pullFromYield e paid (s\<lparr>plans := (plans s)(pid := plan2)\<rparr>) = Inr s2"
    "safeTransfer (owner plan2) paid s2 = Inr s'"
  using assms unfolding withdraw_def
  by (auto split: if_split_asm sum.split_asm prod.split_asm)

lemma withdraw_shape:
  assumes "withdraw e pid amt s = Inr (s', paid)"
  obtains plan2 s2 sh tb where
    "settleWithdrawal (earlyWithdrawalPenalty s) (block_timestamp e < endDate (plans s pid))
        amt (plans s pid) = Inr (plan2, paid)"
    "s' = s\<lparr>plans := (plans s)(pid := plan2), totalYieldShares := sh, tokenBalances := tb\<rparr>"
    "owner plan2 \<noteq> thisAddress s \<and> owner plan2 \<noteq> yieldProtocol s \<longrightarrow>
       tb (owner plan2) = tokenBalances s (owner plan2) + paid"
    "pullFromYield e paid (s\<lparr>plans := (plans s)(pid := plan2)\<rparr>) = Inr s2"
    "safeTransfer (owner plan2) paid s2 = Inr s'"
proof -
  from assms obtain plan2 s2 where
    st: "settleWithdrawal (earlyWithdrawalPenalty s) (block_timestamp e < endDate (plans s pid))
        amt (plans s pid) = Inr (plan2, paid)"
    and pl: "pullFromYield e paid (s\<lparr>plans := (plans s)(pid := plan2)\<rparr>) = Inr s2"
    and tr: "safeTransfer (owner plan2) paid s2 = Inr s'"
    by (rule withdraw_success)
  define s1 where "s1 = s\<lparr>plans := (plans s)(pid := plan2)\<rparr>"
  from pullFromYield_frame[OF pl] obtain sh b where
    s2: "s2 = s1\<lparr>totalYieldShares := sh, tokenBalances := b\<rparr>"
    and b: "\<forall>a. a \<noteq> thisAddress s \<and> a \<noteq> yieldProtocol s \<longrightarrow> b a = tokenBalances s a"
    unfolding s1_def by (simp, blast)
  let ?b1 = "b(thisAddress s := b (thisAddress s) - paid)"
  let ?tb = "?b1(owner plan2 := ?b1 (owner plan2) + paid)"
  from safeTransfer_frame[OF tr] have s': "s' = s2\<lparr>tokenBalances := ?tb\<rparr>"
    by (simp add: s2 s1_def)
  have e1: "s' = s\<lparr>plans := (plans s)(pid := plan2), totalYieldShares := sh,
                    tokenBalances := ?tb\<rparr>"
    by (simp add: s' s2 s1_def)
  have e2: "owner plan2 \<noteq> thisAddress s \<and> owner plan2 \<noteq> yieldProtocol s \<longrightarrow>
              ?tb (owner plan2) = tokenBalances s (owner plan2) + paid"
    using b by simp
  from st e1 e2 pl tr show ?thesis by (rule that)
qed

lemma floor_penalty_aux:
  fixes x req :: nat
  assumes "x \<le> 10000 * req"
  shows "req - x div 10000 =
           (if 10000 dvd x then (10000 * req - x) div 10000
            else (10000 * req - x) div 10000 + 1)"
proof -
  define q where "q = x div 10000"
  define r where "r = x mod 10000"
  have x: "x = 10000 * q + r" and r: "r < 10000" by (simp_all add: q_def r_def)
  show ?thesis
  proof (cases "r = 0")
    case True
    then have d: "10000 dvd x" by (simp add: r_def mod_eq_0_iff_dvd)
    have "10000 * req - x = 10000 * (req - q)" using x True by (simp add: diff_mult_distrib2)
    then have "(10000 * req - x) div 10000 = req - q" by simp
    with d show ?thesis by (simp add: q_def)
  next
    case False
    then have nd: "\<not> 10000 dvd x" by (simp add: r_def mod_eq_0_iff_dvd)
    have ql: "q < req" using assms x False by simp
    then obtain k where k: "req = Suc (q + k)" using less_iff_Suc_add by blast
    have "10000 * req - x = 10000 * k + (10000 - r)" using x r k by simp
    moreover have "10000 - r < 10000" using False by simp
    ultimately have "(10000 * req - x) div 10000 = k" by simp
    with nd k show ?thesis by (simp add: q_def)
  qed
qed

lemma floor_penalty:
  fixes req pen :: nat
  assumes "pen \<le> 10000"
  shows "req - (req * pen) div 10000 =
           (if 10000 dvd req * pen then (req * (10000 - pen)) div 10000
            else (req * (10000 - pen)) div 10000 + 1)"
proof -
  have le: "req * pen \<le> 10000 * req" using assms by (simp add: mult.commute)
  have eq: "req * (10000 - pen) = 10000 * req - req * pen"
    by (simp add: diff_mult_distrib2 mult.commute)
  show ?thesis unfolding eq by (rule floor_penalty_aux[OF le])
qed

section \<open>Withdrawals: claims C1, C5 and C10\<close>

text \<open>
  \<^bold>\<open>Claim C1\<close> says that a plan completed by the maturity transition (\<open>isActive = False\<close>,
  \<open>isCompleted = True\<close>) that still holds a balance can be withdrawn in full by its owner
  at or after the end date. The code does the opposite: whenever the plan is inactive and
  completed, whatever balance it holds, \<^verbatim>\<open>withdraw\<close> by the owner reverts with
  \<open>PlanNotActive\<close>. The source's own comment on this guard reads "Plan already completed
  and withdrawn", and the function is documented as withdrawing "from a completed or active
  plan".
\<close>

theorem withdraw_rejects_completed_plan:
  assumes "pid \<noteq> 0" and "pid \<le> totalPlans s" and "owner (plans s pid) = msg_sender e"
    and "\<not> isActive (plans s pid)" and "isCompleted (plans s pid)"
  shows "withdraw e pid amt s = Inl PlanNotActive"
  using assms by (simp add: withdraw_def)

text \<open>
  The failing input of C1, reached by the calls of the repository's own scenario: a plan is
  created, one deduction of 10 USDC is taken, and thirty days later \<^verbatim>\<open>executeDeduction\<close>
  completes the plan. The 10 USDC are still on the plan, and the owner's
  \<^verbatim>\<open>withdraw(1, 0)\<close> at the end date reverts.
\<close>

theorem withdraw_rejects_completed_plan_witness:
  "isCompleted (plans matured 1) \<and> \<not> isActive (plans matured 1)
   \<and> owner (plans matured 1) = 7
   \<and> accumulatedBalance (plans matured 1) + yieldEarned (plans matured 1) = 10000000
   \<and> endDate (plans matured 1) \<le> 1702592000
   \<and> withdraw (callEnv 7 1702592000) 1 0 matured = Inl PlanNotActive"
proof -
  have tp: "totalPlans matured = 1" by (simp add: evals)
  have ms: "msg_sender (callEnv 7 1702592000) = 7" by (simp add: callEnv_def)
  show ?thesis
    using withdraw_rejects_completed_plan[of 1 matured "callEnv 7 1702592000" 0] tp ms
    by (simp del: One_nat_def add: matured_plan)
qed

text \<open>
  \<^bold>\<open>Claim C5\<close>, as amended. A successful \<^verbatim>\<open>withdraw\<close> before the end date hands the
  owner \<open>requested - requested * penaltyBps div 10000\<close>: the penalty is rounded down and
  subtracted. With a penalty of at most 10000 basis points this is
  \<open>requested * (10000 - penaltyBps) div 10000\<close> when \<open>requested * penaltyBps\<close> is a multiple
  of 10000, and one unit more otherwise. At or after the end date the owner is handed the
  requested amount. In both cases the call ends with one token transfer of the amount paid
  from the contract to the owner, made after the contract has pulled from the yield protocol
  what it lacked; so the owner's token balance grows by the amount paid (the owner being
  neither the contract itself nor the yield protocol, whose own balance the pull lowers).
  \<open>requested\<close> is the amount asked for, or the whole of \<open>accumulatedBalance + yieldEarned\<close>
  when the amount asked for is \<open>0\<close>.
\<close>

theorem withdraw_payout:
  assumes "withdraw e pid amt s = Inr (s', paid)"
  shows "let p = plans s pid;
             requested = (if amt = 0 then accumulatedBalance p + yieldEarned p else amt);
             bps = earlyWithdrawalPenalty s
         in (block_timestamp e < endDate p \<longrightarrow> paid = requested - (requested * bps) div 10000)
          \<and> (block_timestamp e < endDate p \<and> bps \<le> 10000 \<longrightarrow>
               paid = (if 10000 dvd requested * bps then (requested * (10000 - bps)) div 10000
                       else (requested * (10000 - bps)) div 10000 + 1))
          \<and> (endDate p \<le> block_timestamp e \<longrightarrow> paid = requested)
          \<and> (\<exists>s2. pullFromYield e paid (s\<lparr>plans := (plans s)(pid := plans s' pid)\<rparr>) = Inr s2
                  \<and> safeTransfer (owner p) paid s2 = Inr s')
          \<and> (owner p \<noteq> thisAddress s \<and> owner p \<noteq> yieldProtocol s \<longrightarrow>
               tokenBalances s' (owner p) = tokenBalances s (owner p) + paid)"
proof -
  from assms obtain plan2 s2 sh tb where
    st: "settleWithdrawal (earlyWithdrawalPenalty s) (block_timestamp e < endDate (plans s pid))
        amt (plans s pid) = Inr (plan2, paid)"
    and s': "s' = s\<lparr>plans := (plans s)(pid := plan2), totalYieldShares := sh, tokenBalances := tb\<rparr>"
    and tb: "owner plan2 \<noteq> thisAddress s \<and> owner plan2 \<noteq> yieldProtocol s \<longrightarrow>
               tb (owner plan2) = tokenBalances s (owner plan2) + paid"
    and pl: "pullFromYield e paid (s\<lparr>plans := (plans s)(pid := plan2)\<rparr>) = Inr s2"
    and tr: "safeTransfer (owner plan2) paid s2 = Inr s'"
    by (rule withdraw_shape)
  have ow: "owner plan2 = owner (plans s pid)"
    by (subst settleWithdrawal_frame[OF st]) simp
  have p2: "plans s' pid = plan2" by (simp add: s')
  note pd = settleWithdrawal_paid[OF st]
  have a: "block_timestamp e < endDate (plans s pid) \<longrightarrow>
      paid = (if amt = 0 then accumulatedBalance (plans s pid) + yieldEarned (plans s pid) else amt)
           - ((if amt = 0 then accumulatedBalance (plans s pid) + yieldEarned (plans s pid) else amt)
               * earlyWithdrawalPenalty s) div 10000"
    using pd by auto
  have b: "block_timestamp e < endDate (plans s pid) \<and> earlyWithdrawalPenalty s \<le> 10000 \<longrightarrow>
      paid = (if 10000 dvd (if amt = 0 then accumulatedBalance (plans s pid) + yieldEarned (plans s pid) else amt)
                   * earlyWithdrawalPenalty s
              then ((if amt = 0 then accumulatedBalance (plans s pid) + yieldEarned (plans s pid) else amt)
                     * (10000 - earlyWithdrawalPenalty s)) div 10000
              else ((if amt = 0 then accumulatedBalance (plans s pid) + yieldEarned (plans s pid) else amt)
                     * (10000 - earlyWithdrawalPenalty s)) div 10000 + 1)"
    using a floor_penalty[of "earlyWithdrawalPenalty s"
      "if amt = 0 then accumulatedBalance (plans s pid) + yieldEarned (plans s pid) else amt"]
    by auto
  have c: "endDate (plans s pid) \<le> block_timestamp e \<longrightarrow>
      paid = (if amt = 0 then accumulatedBalance (plans s pid) + yieldEarned (plans s pid) else amt)"
    using pd by auto
  have d: "\<exists>s2. pullFromYield e paid (s\<lparr>plans := (plans s)(pid := plans s' pid)\<rparr>) = Inr s2
                  \<and> safeTransfer (owner (plans s pid)) paid s2 = Inr s'"
    using pl tr unfolding p2 ow by blast
  have f: "owner (plans s pid) \<noteq> thisAddress s \<and> owner (plans s pid) \<noteq> yieldProtocol s \<longrightarrow>
               tokenBalances s' (owner (plans s pid)) = tokenBalances s (owner (plans s pid)) + paid"
    using tb ow by (simp add: s')
  show ?thesis
    unfolding Let_def
    using a b c d f by blast
qed

text \<open>
  The theorem at two withdrawals from the plan holding 10 USDC: 1.000001 USDC asked for
  a hundred seconds after the deposit, and everything asked for one second after the end
  date.
\<close>

theorem withdraw_payout_witness:
  "withdraw (callEnv 7 1700000100) 1 1000001 afterDeposit = Inr (afterEarlyWithdraw, 900001)
   \<and> (900001::nat) = 1000001 - (1000001 * 1000) div 10000
   \<and> tokenBalances afterEarlyWithdraw 7 = tokenBalances afterDeposit 7 + 900001
   \<and> withdraw (callEnv 7 1702592001) 1 0 afterDeposit = Inr (afterMatureWithdraw, 10000000)
   \<and> tokenBalances afterMatureWithdraw 7 = tokenBalances afterDeposit 7 + 10000000"
  using withdraw_payout[OF early_withdraw_result] withdraw_payout[OF mature_withdraw_result]
    early_withdraw_result mature_withdraw_result
  by (simp del: One_nat_def add: afterDeposit_plan afterDeposit_globals afterDeposit_tokens afterEarlyWithdraw_globals afterMatureWithdraw_tokens callEnv_def)

text \<open>
  Claim C5 as stated fails: with a penalty of 1000 basis points an early withdrawal of
  \<open>1000001\<close> units pays \<open>900001\<close>, and \<open>1000001 * (10000 - 1000) div 10000\<close> is
  \<open>900000\<close>.
\<close>

theorem early_withdrawal_rounding_counterexample:
  "block_timestamp (callEnv 7 1700000100) < endDate (plans afterDeposit 1)
   \<and> earlyWithdrawalPenalty afterDeposit = 1000
   \<and> withdraw (callEnv 7 1700000100) 1 1000001 afterDeposit = Inr (afterEarlyWithdraw, 900001)
   \<and> (1000001 * (10000 - 1000)) div 10000 = (900000::nat)"
  using early_withdraw_result
  by (simp del: One_nat_def add: afterDeposit_plan afterDeposit_globals callEnv_def)

text \<open>
  \<^bold>\<open>Claim C10\<close>. A successful \<^verbatim>\<open>withdraw(planId, amount)\<close> leaves \<open>totalPlans\<close>,
  \<open>totalPrincipal\<close>, \<open>totalUserYield\<close> and \<open>totalProtocolYield\<close> as they were, leaves the
  record of every other plan as it was, changes no field of the targeted plan other than
  \<open>accumulatedBalance\<close>, \<open>yieldEarned\<close>, \<open>isActive\<close> and \<open>isCompleted\<close>, and changes
  nothing else of the state but the token balances and \<open>totalYieldShares\<close>.
\<close>

theorem withdraw_frame:
  assumes "withdraw e pid amt s = Inr (s', paid)"
  shows "totalPlans s' = totalPlans s \<and> totalPrincipal s' = totalPrincipal s
       \<and> totalUserYield s' = totalUserYield s \<and> totalProtocolYield s' = totalProtocolYield s
       \<and> (\<forall>q. q \<noteq> pid \<longrightarrow> plans s' q = plans s q)
       \<and> plans s' pid = (plans s pid)\<lparr>accumulatedBalance := accumulatedBalance (plans s' pid),
             yieldEarned := yieldEarned (plans s' pid),
             isActive := isActive (plans s' pid), isCompleted := isCompleted (plans s' pid)\<rparr>
       \<and> s' = s\<lparr>plans := plans s', totalYieldShares := totalYieldShares s',
                 tokenBalances := tokenBalances s'\<rparr>"
proof -
  from assms obtain plan2 sh tb where
    st: "settleWithdrawal (earlyWithdrawalPenalty s) (block_timestamp e < endDate (plans s pid))
        amt (plans s pid) = Inr (plan2, paid)"
    and s': "s' = s\<lparr>plans := (plans s)(pid := plan2), totalYieldShares := sh, tokenBalances := tb\<rparr>"
    by (rule withdraw_shape)
  have p2: "plans s' pid = plan2" by (simp add: s')
  show ?thesis
    using settleWithdrawal_frame[OF st]
    by (simp add: s')
qed

text \<open>
  The theorem at the early, partial withdrawal of the fixture.
\<close>

theorem withdraw_frame_witness:
  "withdraw (callEnv 7 1700000100) 1 1000001 afterDeposit = Inr (afterEarlyWithdraw, 900001)
   \<and> totalPlans afterEarlyWithdraw = 1 \<and> totalPrincipal afterEarlyWithdraw = 10000000
   \<and> totalUserYield afterEarlyWithdraw = 0 \<and> totalProtocolYield afterEarlyWithdraw = 0
   \<and> plans afterEarlyWithdraw 2 = plans afterDeposit 2
   \<and> plans afterEarlyWithdraw 1 = (plans afterDeposit 1)\<lparr>accumulatedBalance := 8999999\<rparr>"
  using withdraw_frame[OF early_withdraw_result] early_withdraw_result
  by (simp del: One_nat_def add: afterDeposit_plan afterDeposit_globals afterEarlyWithdraw_plan afterEarlyWithdraw_globals)

section \<open>Pausing and emergency withdrawals: claims C2, C3 and C4\<close>


lemma paused_withdraw_result:
  "withdraw (callEnv 7 1700000250) 1 0 pausedAfterDeposit = Inr (withdrawnWhilePaused, 9000000)"
  by (simp add: evals)

lemma unpaused_cancel_result:
  "cancelEmergencyWithdrawal (callEnv 1 1700000360) scheduledId unpausedScheduled
     = Inr cancelledUnpaused"
  by (simp add: evals)

lemma pause_flags:
  "paused pausedAfterDeposit \<and> \<not> paused unpausedScheduled \<and> paused scheduled
   \<and> paused responderGranted \<and> paused cancelledRequest \<and> paused rescheduled"
  by (simp add: evals)


lemma afterEmergency_facts:
  "plans afterEmergency 1 = (plans afterDeposit 1)\<lparr>accumulatedBalance := 0, isActive := False,
      isCompleted := True\<rparr>
   \<and> tokenBalances afterEmergency 7 = 10000000000 \<and> tokenBalances afterEmergency 1 = 0
   \<and> tokenBalances afterEmergency 3 = 0 \<and> tokenBalances afterEmergency 100 = 0
   \<and> executed (emergencyWithdrawals afterEmergency scheduledId)"
  by (simp add: evals)





lemma cancel_result:
  "cancelEmergencyWithdrawal (callEnv 1 1700000300) scheduledId scheduled = Inr cancelledRequest
   \<and> cancelled (emergencyWithdrawals cancelledRequest scheduledId)"
  by (simp add: evals)

lemma reschedule_result:
  "scheduleEmergencyWithdrawal (callEnv 1 1700000300) 7 1 0 42 cancelledRequest
     = Inr (rescheduled, scheduledId)"
  by (simp add: evals)

lemma rescheduled_execution_result:
  "executeEmergencyWithdrawal (callEnv 1 1700173100) scheduledId rescheduled
     = Inr afterRescheduledExecution
   \<and> tokenBalances afterRescheduledExecution 7 = tokenBalances rescheduled 7 + 10000000"
  by (simp add: evals)

lemma schedule_result:
  "scheduleEmergencyWithdrawal (callEnv 1 1700000300) 7 1 0 42 pausedAfterDeposit
     = Inr (scheduled, scheduledId)"
  by (simp add: evals)



lemma executeEmergencyWithdrawal_success:
  assumes "executeEmergencyWithdrawal e wid s = Inr s'"
  obtains s1 plan1 where
    "roles s EMERGENCY_ROLE (msg_sender e)" "paused s"
    "admin (emergencyWithdrawals s wid) \<noteq> 0"
    "\<not> executed (emergencyWithdrawals s wid)" "\<not> cancelled (emergencyWithdrawals s wid)"
    "executionTime (emergencyWithdrawals s wid) \<le> block_timestamp e"
    "pullFromYield e (clampedAmount (amount (emergencyWithdrawals s wid))
        (accumulatedBalance (plans s (planId (emergencyWithdrawals s wid)))
          + yieldEarned (plans s (planId (emergencyWithdrawals s wid))))) s = Inr s1"
    "emergencyDebit (clampedAmount (amount (emergencyWithdrawals s wid))
        (accumulatedBalance (plans s (planId (emergencyWithdrawals s wid)))
          + yieldEarned (plans s (planId (emergencyWithdrawals s wid)))))
        (plans s (planId (emergencyWithdrawals s wid))) = Inr plan1"
    "safeTransfer (user (emergencyWithdrawals s wid))
        (clampedAmount (amount (emergencyWithdrawals s wid))
          (accumulatedBalance (plans s (planId (emergencyWithdrawals s wid)))
            + yieldEarned (plans s (planId (emergencyWithdrawals s wid)))))
        (s1\<lparr>plans := (plans s1)
              (planId (emergencyWithdrawals s wid) := plan1\<lparr>isActive := False, isCompleted := True\<rparr>),
            emergencyWithdrawals := (emergencyWithdrawals s1)
              (wid := (emergencyWithdrawals s wid)\<lparr>executed := True\<rparr>)\<rparr>) = Inr s'"
  using assms unfolding executeEmergencyWithdrawal_def Let_def
  by (auto split: if_split_asm sum.split_asm)

lemma executeEmergencyWithdrawal_shape:
  assumes "executeEmergencyWithdrawal e wid s = Inr s'"
  obtains plan1 sh tb where
    "emergencyDebit (clampedAmount (amount (emergencyWithdrawals s wid))
        (accumulatedBalance (plans s (planId (emergencyWithdrawals s wid)))
          + yieldEarned (plans s (planId (emergencyWithdrawals s wid)))))
        (plans s (planId (emergencyWithdrawals s wid))) = Inr plan1"
    "s' = s\<lparr>plans := (plans s)
              (planId (emergencyWithdrawals s wid) := plan1\<lparr>isActive := False, isCompleted := True\<rparr>),
            emergencyWithdrawals := (emergencyWithdrawals s)
              (wid := (emergencyWithdrawals s wid)\<lparr>executed := True\<rparr>),
            totalYieldShares := sh, tokenBalances := tb\<rparr>"
    "user (emergencyWithdrawals s wid) \<noteq> thisAddress s
       \<and> user (emergencyWithdrawals s wid) \<noteq> yieldProtocol s \<longrightarrow>
       tb (user (emergencyWithdrawals s wid))
         = tokenBalances s (user (emergencyWithdrawals s wid))
           + clampedAmount (amount (emergencyWithdrawals s wid))
               (accumulatedBalance (plans s (planId (emergencyWithdrawals s wid)))
                 + yieldEarned (plans s (planId (emergencyWithdrawals s wid))))"
    "\<forall>a. a \<noteq> user (emergencyWithdrawals s wid) \<and> a \<noteq> thisAddress s \<longrightarrow>
           tb a \<le> tokenBalances s a"
    "\<forall>a. a \<noteq> user (emergencyWithdrawals s wid) \<and> a \<noteq> thisAddress s \<and> a \<noteq> yieldProtocol s \<longrightarrow>
           tb a = tokenBalances s a"
proof -
  let ?w = "emergencyWithdrawals s wid"
  let ?paid = "clampedAmount (amount ?w)
        (accumulatedBalance (plans s (planId ?w)) + yieldEarned (plans s (planId ?w)))"
  from assms obtain s1 plan1 where
    pl: "pullFromYield e ?paid s = Inr s1"
    and db: "emergencyDebit ?paid (plans s (planId ?w)) = Inr plan1"
    and tr: "safeTransfer (user ?w) ?paid
        (s1\<lparr>plans := (plans s1)(planId ?w := plan1\<lparr>isActive := False, isCompleted := True\<rparr>),
            emergencyWithdrawals := (emergencyWithdrawals s1)(wid := ?w\<lparr>executed := True\<rparr>)\<rparr>) = Inr s'"
    by (rule executeEmergencyWithdrawal_success)
  from pullFromYield_frame[OF pl] obtain sh b where
    s1: "s1 = s\<lparr>totalYieldShares := sh, tokenBalances := b\<rparr>"
    and le: "\<forall>a. a \<noteq> thisAddress s \<longrightarrow> b a \<le> tokenBalances s a"
    and eq: "\<forall>a. a \<noteq> thisAddress s \<and> a \<noteq> yieldProtocol s \<longrightarrow> b a = tokenBalances s a"
    by blast
  let ?b1 = "b(thisAddress s := b (thisAddress s) - ?paid)"
  let ?tb = "?b1(user ?w := ?b1 (user ?w) + ?paid)"
  from safeTransfer_frame[OF tr]
  have s': "s' = s\<lparr>plans := (plans s)(planId ?w := plan1\<lparr>isActive := False, isCompleted := True\<rparr>),
            emergencyWithdrawals := (emergencyWithdrawals s)(wid := ?w\<lparr>executed := True\<rparr>),
            totalYieldShares := sh, tokenBalances := ?tb\<rparr>"
    by (simp add: s1)
  have e2: "user ?w \<noteq> thisAddress s \<and> user ?w \<noteq> yieldProtocol s \<longrightarrow>
              ?tb (user ?w) = tokenBalances s (user ?w) + ?paid"
    using eq by simp
  have e3: "\<forall>a. a \<noteq> user ?w \<and> a \<noteq> thisAddress s \<longrightarrow> ?tb a \<le> tokenBalances s a"
    using le by simp
  have e4: "\<forall>a. a \<noteq> user ?w \<and> a \<noteq> thisAddress s \<and> a \<noteq> yieldProtocol s \<longrightarrow>
              ?tb a = tokenBalances s a"
    using eq by simp
  from db s' e2 e3 e4 show ?thesis by (rule that)
qed

lemma scheduleEmergencyWithdrawal_success:
  assumes "scheduleEmergencyWithdrawal e u pid amt r s = Inr (s', wid)"
  shows "roles s EMERGENCY_ROLE (msg_sender e) \<and> paused s \<and> pid \<noteq> 0 \<and> pid \<le> totalPlans s
       \<and> owner (plans s pid) = u
       \<and> wid = (msg_sender e, u, pid, amt, block_timestamp e, r)
       \<and> s' = s\<lparr>emergencyWithdrawals := (emergencyWithdrawals s)
              (wid := \<lparr>admin = msg_sender e, user = u, planId = pid, amount = amt,
                       scheduledTime = block_timestamp e,
                       executionTime = block_timestamp e + emergencyWithdrawalDelay s,
                       reasonHash = r, executed = False, cancelled = False\<rparr>)\<rparr>"
  using assms unfolding scheduleEmergencyWithdrawal_def Let_def
  by (auto split: if_split_asm)

text \<open>
  \<^bold>\<open>Claim C2\<close>, as amended. \<^verbatim>\<open>scheduleEmergencyWithdrawal\<close> and
  \<^verbatim>\<open>executeEmergencyWithdrawal\<close> revert whenever the contract is not paused, for every
  caller (a caller without the emergency role is turned away before the pause check), and
  \<^verbatim>\<open>executeDeduction\<close> reverts whenever the contract is paused (an invalid plan id is
  reported before the pause check). \<^verbatim>\<open>cancelEmergencyWithdrawal\<close> and \<^verbatim>\<open>withdraw\<close>
  carry no pause modifier and are not part of the statement.
\<close>

theorem pause_gates:
  "(\<not> paused s \<longrightarrow>
      scheduleEmergencyWithdrawal e u pid amt r s
        = Inl (if roles s EMERGENCY_ROLE (msg_sender e) then ExpectedPause
               else AccessControlUnauthorizedAccount)
    \<and> executeEmergencyWithdrawal e wid s
        = Inl (if roles s EMERGENCY_ROLE (msg_sender e) then ExpectedPause
               else AccessControlUnauthorizedAccount))
   \<and> (paused s \<longrightarrow>
        executeDeduction e pid s
          = Inl (if pid = 0 \<or> pid > totalPlans s then InvalidPlanId else EnforcedPause))"
  by (simp add: scheduleEmergencyWithdrawal_def executeEmergencyWithdrawal_def
      executeDeduction_def)

text \<open>
  The theorem at the unpaused state after the first deduction, where the admin's attempts
  to schedule and to execute fail, and at the paused state, where the keeper's deduction
  fails.
\<close>

theorem pause_gates_witness:
  "\<not> paused afterDeposit
   \<and> scheduleEmergencyWithdrawal (callEnv 1 1700000300) 7 1 0 42 afterDeposit = Inl ExpectedPause
   \<and> executeEmergencyWithdrawal (callEnv 1 1700173100) scheduledId afterDeposit = Inl ExpectedPause
   \<and> paused pausedAfterDeposit
   \<and> executeDeduction (callEnv 1 1700086400) 1 pausedAfterDeposit = Inl EnforcedPause"
proof -
  have r: "roles afterDeposit EMERGENCY_ROLE 1" by (simp add: evals)
  have tp: "totalPlans pausedAfterDeposit = 1" by (simp add: evals)
  show ?thesis
    using pause_gates[where s = afterDeposit and e = "callEnv 1 1700000300" and u = 7
          and pid = 1 and amt = 0 and r = 42 and wid = scheduledId]
      pause_gates[where s = afterDeposit and e = "callEnv 1 1700173100" and u = 7
          and pid = 1 and amt = 0 and r = 42 and wid = scheduledId]
      pause_gates[where s = pausedAfterDeposit and e = "callEnv 1 1700086400" and u = 7
          and pid = 1 and amt = 0 and r = 42 and wid = scheduledId]
      r tp pause_flags afterDeposit_globals
    by (simp add: callEnv_def)
qed

text \<open>
  Claim C2 as stated fails twice. While the contract is paused the saver's
  \<^verbatim>\<open>withdraw(1, 0)\<close> succeeds and pays 9 USDC (10 USDC less the early penalty); and after
  the contract has been unpaused the admin's \<^verbatim>\<open>cancelEmergencyWithdrawal\<close> of the
  scheduled request succeeds.
\<close>

theorem pause_gates_counterexample:
  "paused pausedAfterDeposit
   \<and> withdraw (callEnv 7 1700000250) 1 0 pausedAfterDeposit = Inr (withdrawnWhilePaused, 9000000)
   \<and> \<not> paused unpausedScheduled
   \<and> cancelEmergencyWithdrawal (callEnv 1 1700000360) scheduledId unpausedScheduled
        = Inr cancelledUnpaused"
  using pause_flags paused_withdraw_result unpaused_cancel_result by simp





lemma executeEmergencyWithdrawal_not_ready:
  assumes "block_timestamp e < executionTime (emergencyWithdrawals s wid)"
  shows "isl (executeEmergencyWithdrawal e wid s)"
    and "roles s EMERGENCY_ROLE (msg_sender e) \<Longrightarrow> paused s
         \<Longrightarrow> admin (emergencyWithdrawals s wid) \<noteq> 0
         \<Longrightarrow> \<not> executed (emergencyWithdrawals s wid)
         \<Longrightarrow> \<not> cancelled (emergencyWithdrawals s wid)
         \<Longrightarrow> executeEmergencyWithdrawal e wid s = Inl EmergencyWithdrawalNotReady"
  using assms by (simp_all add: executeEmergencyWithdrawal_def Let_def)

lemma executeEmergencyWithdrawal_terminal:
  assumes "executed (emergencyWithdrawals s wid) \<or> cancelled (emergencyWithdrawals s wid)"
  shows "isl (executeEmergencyWithdrawal e wid s)"
  using assms by (auto simp add: executeEmergencyWithdrawal_def Let_def)

lemma cancelEmergencyWithdrawal_success:
  assumes "cancelEmergencyWithdrawal e wid s = Inr s'"
  shows "s' = s\<lparr>emergencyWithdrawals := (emergencyWithdrawals s)
                 (wid := (emergencyWithdrawals s wid)\<lparr>cancelled := True\<rparr>)\<rparr>"
  using assms unfolding cancelEmergencyWithdrawal_def Let_def
  by (auto split: if_split_asm)

text \<open>An executed request is re-armed in the same way when the delay is zero: the second
  scheduling in the block returns the identifier of the executed request, and the second
  execution pays the saver another 4 USDC.\<close>

lemma double_execution_example:
  "executed (emergencyWithdrawals executedOnce partialId)
   \<and> tokenBalances executedOnce 7 = tokenBalances zeroDelay 7 + 4000000
   \<and> scheduleEmergencyWithdrawal (callEnv 1 1700000300) 7 1 4000000 42 executedOnce
        = Inr (scheduledTwice, partialId)
   \<and> executeEmergencyWithdrawal (callEnv 1 1700000300) partialId scheduledTwice
        = Inr executedTwice
   \<and> tokenBalances executedTwice 7 = tokenBalances zeroDelay 7 + 8000000"
  by (simp add: evals)

text \<open>
  \<^bold>\<open>Claim C4\<close> says that a cancelled request can never be executed and that a request is
  executed at most once. \<^verbatim>\<open>scheduleEmergencyWithdrawal\<close> does not look at what is stored
  under the identifier it computes: a successful call writes a fresh request, neither
  executed nor cancelled, whatever the state of the request that was there. The identifier
  depends on the caller, the arguments and the block timestamp only, so the same call made
  again in the same block writes over the request it made before.
\<close>

theorem schedule_resets_request:
  assumes "scheduleEmergencyWithdrawal e u pid amt r s = Inr (s', wid)"
  shows "wid = (msg_sender e, u, pid, amt, block_timestamp e, r)
       \<and> \<not> executed (emergencyWithdrawals s' wid) \<and> \<not> cancelled (emergencyWithdrawals s' wid)
       \<and> executionTime (emergencyWithdrawals s' wid)
           = block_timestamp e + emergencyWithdrawalDelay s"
  using scheduleEmergencyWithdrawal_success[OF assms] by simp

text \<open>
  The failing input of C4. With the contract paused, the admin schedules the request, and in
  the same block cancels it (the cancellation succeeds and the request is marked
  cancelled) and schedules it again. The second scheduling returns the same identifier;
  48 hours later \<^verbatim>\<open>executeEmergencyWithdrawal\<close> of that identifier succeeds and pays the
  saver 10 USDC.
\<close>

theorem schedule_resets_request_witness:
  "scheduleEmergencyWithdrawal (callEnv 1 1700000300) 7 1 0 42 pausedAfterDeposit
      = Inr (scheduled, scheduledId)
   \<and> cancelEmergencyWithdrawal (callEnv 1 1700000300) scheduledId scheduled = Inr cancelledRequest
   \<and> cancelled (emergencyWithdrawals cancelledRequest scheduledId)
   \<and> scheduleEmergencyWithdrawal (callEnv 1 1700000300) 7 1 0 42 cancelledRequest
        = Inr (rescheduled, scheduledId)
   \<and> \<not> cancelled (emergencyWithdrawals rescheduled scheduledId)
   \<and> executeEmergencyWithdrawal (callEnv 1 1700173100) scheduledId rescheduled
        = Inr afterRescheduledExecution
   \<and> tokenBalances afterRescheduledExecution 7 = tokenBalances rescheduled 7 + 10000000"
  using schedule_resets_request[OF reschedule_result] schedule_result cancel_result
    reschedule_result rescheduled_execution_result
  by simp

section \<open>Deductions: claims C6 and C7\<close>

lemma unfundedPlan_facts:
  "plans unfundedPlan 1 =
     \<lparr>owner = 8, dailyAmount = 10000000, startDate = 1700000000, endDate = 1702592000,
      totalTarget = 300000000, accumulatedBalance = 0, principalDeposited = 0,
      yieldEarned = 0, lastDeductionDate = 0, successfulDeductions = 0,
      missedDeductions = 0, isActive = True, isCompleted = False, duration = ONE_MONTH\<rparr>
   \<and> totalPlans unfundedPlan = 1 \<and> \<not> paused unfundedPlan
   \<and> tokenBalances unfundedPlan 8 = 0 \<and> tokenAllowances unfundedPlan 8 100 = 0
   \<and> thisAddress unfundedPlan = 100"
  by (simp add: evals)

lemma missed_result:
  "executeDeduction (callEnv 1 1700000000) 1 unfundedPlan = Inr afterMissed"
  by (simp add: evals)

lemma afterMissed_plan:
  "plans afterMissed 1 = (plans unfundedPlan 1)\<lparr>missedDeductions := 1\<rparr>"
  by (simp add: evals)

lemma yieldDeposited_facts:
  "totalYieldShares yieldDeposited = 10000000 \<and> totalPrincipal yieldDeposited = 10000000
   \<and> totalPlans yieldDeposited = 1 \<and> userYieldShareBps yieldDeposited = 9000
   \<and> yieldProtocol yieldDeposited = 300 \<and> tokenBalances yieldDeposited 100 = 0
   \<and> principalDeposited (plans yieldDeposited 1) = 10000000
   \<and> startDate (plans yieldDeposited 1) = 1700000000
   \<and> endDate (plans yieldDeposited 1) = 1702592000"
  by (simp add: evals)

lemma harvested_facts:
  "totalProtocolYield harvested = 50000 \<and> totalUserYield harvested = 450000
   \<and> tokenBalances harvested 100 = 499999 \<and> totalYieldShares harvested = 9523810"
  by (simp add: evals)

lemma fees_result:
  "step (callEnv 1 1700086500) (WithdrawProtocolFees 50000 9) harvested = Inr feesWithdrawn
   \<and> totalProtocolYield feesWithdrawn = 0"
  by (simp add: evals)

lemma safeTransferFrom_frame:
  assumes "safeTransferFrom from to v s = Inr s'"
  shows "s' = s\<lparr>tokenBalances := tokenBalances s', tokenAllowances := tokenAllowances s'\<rparr>"
proof -
  let ?cur = "tokenAllowances s from (thisAddress s)"
  let ?s1 = "(if ?cur \<noteq> MAX_UINT256
              then s\<lparr>tokenAllowances :=
                      (tokenAllowances s)(from := (tokenAllowances s from)(thisAddress s := ?cur - v))\<rparr>
              else s)"
  from assms have mv: "erc20_move from to v ?s1 = Inr s'"
    unfolding safeTransferFrom_def Let_def by (simp split: if_split_asm)
  have g: "from \<noteq> 0" "to \<noteq> 0" "\<not> tokenBalances ?s1 from < v"
    using mv unfolding erc20_move_def by (simp_all split: if_split_asm)
  from mv g have eq: "s' = ?s1\<lparr>tokenBalances := tokenBalances s'\<rparr>"
    unfolding erc20_move_def Let_def by auto
  show ?thesis
  proof (cases "?cur \<noteq> MAX_UINT256")
    case True
    with eq have "s' = s\<lparr>tokenAllowances :=
                      (tokenAllowances s)(from := (tokenAllowances s from)(thisAddress s := ?cur - v)),
                    tokenBalances := tokenBalances s'\<rparr>"
      by simp
    then obtain tb where e: "s' = s\<lparr>tokenAllowances :=
                      (tokenAllowances s)(from := (tokenAllowances s from)(thisAddress s := ?cur - v)),
                    tokenBalances := tb\<rparr>"
      by blast
    show ?thesis by (simp add: e)
  next
    case False
    with eq have "s' = s\<lparr>tokenBalances := tokenBalances s'\<rparr>" by simp
    then obtain tb where e: "s' = s\<lparr>tokenBalances := tb\<rparr>" by blast
    show ?thesis by (simp add: e)
  qed
qed

lemma depositToYield_frame:
  assumes "depositToYield e a s = Inr s'"
  shows "s' = s\<lparr>totalYieldShares := totalYieldShares s', tokenBalances := tokenBalances s'\<rparr>"
proof -
  have "s' = s \<or> (\<exists>s1 sh. protocolPulls a s = Some s1 \<and> s' = s1\<lparr>totalYieldShares := sh\<rparr>)"
    using assms unfolding depositToYield_def
    by (auto split: if_split_asm option.split_asm)
  then show ?thesis
  proof
    assume "s' = s"
    then show ?thesis by simp
  next
    assume "\<exists>s1 sh. protocolPulls a s = Some s1 \<and> s' = s1\<lparr>totalYieldShares := sh\<rparr>"
    then obtain s1 sh where p: "protocolPulls a s = Some s1"
      and s': "s' = s1\<lparr>totalYieldShares := sh\<rparr>" by blast
    from protocolPulls_frame[OF p] obtain tb where s1: "s1 = s\<lparr>tokenBalances := tb\<rparr>"
      by blast
    show ?thesis by (simp add: s' s1)
  qed
qed

lemma sweepToYield_frame:
  assumes "sweepToYield e s = Inr s'"
  shows "s' = s\<lparr>totalYieldShares := totalYieldShares s', tokenBalances := tokenBalances s'\<rparr>"
  using assms depositToYield_frame[of e "tokenBalances s (thisAddress s)" s s']
  unfolding sweepToYield_def Let_def
  by (auto split: if_split_asm option.split_asm)

lemma executeDeduction_cases:
  assumes "executeDeduction e pid s = Inr s'"
  shows "(block_timestamp e \<ge> endDate (plans s pid)
            \<and> s' = s\<lparr>plans := (plans s)(pid := (plans s pid)\<lparr>isActive := False, isCompleted := True\<rparr>)\<rparr>)
       \<or> (block_timestamp e < endDate (plans s pid)
            \<and> (tokenBalances s (owner (plans s pid)) < dailyAmount (plans s pid)
                 \<or> tokenAllowances s (owner (plans s pid)) (thisAddress s) < dailyAmount (plans s pid))
            \<and> s' = s\<lparr>plans := (plans s)
                  (pid := (plans s pid)\<lparr>missedDeductions := missedDeductions (plans s pid) + 1\<rparr>)\<rparr>)
       \<or> (block_timestamp e < endDate (plans s pid)
            \<and> (\<exists>s1. safeTransferFrom (owner (plans s pid)) (thisAddress s) (dailyAmount (plans s pid)) s = Inr s1
                 \<and> sweepToYield e
                      (s1\<lparr>plans := (plans s1)
                            (pid := (plans s pid)
                               \<lparr>accumulatedBalance := accumulatedBalance (plans s pid) + dailyAmount (plans s pid),
                                principalDeposited := principalDeposited (plans s pid) + dailyAmount (plans s pid),
                                lastDeductionDate := block_timestamp e,
                                successfulDeductions := successfulDeductions (plans s pid) + 1\<rparr>),
                          totalPrincipal := totalPrincipal s1 + dailyAmount (plans s pid)\<rparr>) = Inr s'))"
  using assms unfolding executeDeduction_def Let_def
  by (auto split: if_split_asm sum.split_asm)

lemma safeTransferFrom_error:
  assumes "safeTransferFrom from to v s = Inl err"
  shows "err \<in> {ERC20InsufficientAllowance, ERC20InvalidSender, ERC20InvalidReceiver,
                 ERC20InsufficientBalance}"
  using assms unfolding safeTransferFrom_def erc20_move_def
  by (simp split: if_split_asm add: Let_def)

lemma sweepToYield_error:
  assumes "sweepToYield e s = Inl err"
  shows "err \<in> {ExternalCallReverted, Panic}"
  using assms unfolding sweepToYield_def depositToYield_def
  by (simp split: if_split_asm option.split_asm add: Let_def)

lemma executeDeduction_due_not_duplicate:
  assumes "pid \<noteq> 0" and "pid \<le> totalPlans s" and "\<not> paused s"
    and "isActive (plans s pid)" and "\<not> isCompleted (plans s pid)"
    and "block_timestamp e < endDate (plans s pid)"
    and "lastDeductionDate (plans s pid) > 0"
    and "startDate (plans s pid) + successfulDeductions (plans s pid) * ONE_DAY \<le> MAX_UINT256"
    and "lastDeductionDate (plans s pid) + ONE_HOUR \<le> MAX_UINT256"
    and "ONE_HOUR \<le> startDate (plans s pid) + successfulDeductions (plans s pid) * ONE_DAY"
    and "\<not> (block_timestamp e \<le> lastDeductionDate (plans s pid) + ONE_HOUR
            \<or> lastDeductionDate (plans s pid)
                 \<ge> startDate (plans s pid) + successfulDeductions (plans s pid) * ONE_DAY - ONE_HOUR)"
    and "\<not> block_timestamp e
            < startDate (plans s pid) + successfulDeductions (plans s pid) * ONE_DAY - ONE_HOUR"
  shows "executeDeduction e pid s \<noteq> Inl DeductionAlreadyExecuted"
proof -
  have m: "\<not> successfulDeductions (plans s pid) * ONE_DAY > MAX_UINT256"
    using assms(8) by simp
  show ?thesis
    using assms m
    by (auto simp add: executeDeduction_def Let_def split: sum.split
        dest: safeTransferFrom_error sweepToYield_error)
qed

lemma pausedAfterDeposit_facts:
  "plans pausedAfterDeposit 1 = plans afterDeposit 1 \<and> totalPlans pausedAfterDeposit = 1
   \<and> paused pausedAfterDeposit"
  by (simp add: evals)

lemma executeDeduction_unpaused_rejections:
  assumes "pid \<noteq> 0" and "pid \<le> totalPlans s" and "\<not> paused s"
    and "isActive (plans s pid)" and "\<not> isCompleted (plans s pid)"
    and "block_timestamp e < endDate (plans s pid)"
    and "lastDeductionDate (plans s pid) > 0"
    and "startDate (plans s pid) + successfulDeductions (plans s pid) * ONE_DAY \<le> MAX_UINT256"
    and "lastDeductionDate (plans s pid) + ONE_HOUR \<le> MAX_UINT256"
    and "ONE_HOUR \<le> startDate (plans s pid) + successfulDeductions (plans s pid) * ONE_DAY"
  shows "let p = plans s pid;
             expected = startDate p + successfulDeductions p * ONE_DAY;
             already = (block_timestamp e \<le> lastDeductionDate p + ONE_HOUR
                        \<or> lastDeductionDate p \<ge> expected - ONE_HOUR);
             premature = (block_timestamp e < expected - ONE_HOUR)
         in (executeDeduction e pid s = Inl DeductionAlreadyExecuted \<longleftrightarrow> already)
          \<and> (\<not> already \<and> premature \<longrightarrow> executeDeduction e pid s = Inl InvalidParameter)
          \<and> (already \<or> premature \<longrightarrow> run [(e, ExecuteDeduction pid)] s = s)"
proof -
  let ?p = "plans s pid"
  let ?expected = "startDate ?p + successfulDeductions ?p * ONE_DAY"
  let ?already = "block_timestamp e \<le> lastDeductionDate ?p + ONE_HOUR
                        \<or> lastDeductionDate ?p \<ge> ?expected - ONE_HOUR"
  let ?premature = "block_timestamp e < ?expected - ONE_HOUR"
  have m: "\<not> successfulDeductions ?p * ONE_DAY > MAX_UINT256"
    using assms(8) by simp
  have a: "?already \<Longrightarrow> executeDeduction e pid s = Inl DeductionAlreadyExecuted"
    using assms m by (auto simp add: executeDeduction_def Let_def)
  have b: "\<not> ?already \<Longrightarrow> ?premature \<Longrightarrow> executeDeduction e pid s = Inl InvalidParameter"
    using assms m by (auto simp add: executeDeduction_def Let_def)
  have c: "\<not> ?already \<Longrightarrow> executeDeduction e pid s \<noteq> Inl DeductionAlreadyExecuted"
  proof (cases ?premature)
    case True
    assume "\<not> ?already"
    with b True show ?thesis by simp
  next
    case False
    assume "\<not> ?already"
    with False show ?thesis
      using assms by (intro executeDeduction_due_not_duplicate)
  qed
  have d: "?already \<or> ?premature \<Longrightarrow> run [(e, ExecuteDeduction pid)] s = s"
    using a b by (cases ?already) auto
  show ?thesis
    unfolding Let_def using a b c d by blast
qed

lemma executeDeduction_paused:
  assumes "pid \<noteq> 0" and "pid \<le> totalPlans s" and "paused s"
  shows "executeDeduction e pid s = Inl EnforcedPause"
    and "run [(e, ExecuteDeduction pid)] s = s"
proof -
  show a: "executeDeduction e pid s = Inl EnforcedPause"
    using assms by (simp add: executeDeduction_def)
  show "run [(e, ExecuteDeduction pid)] s = s"
    using a by simp
qed

text \<open>
  \<^bold>\<open>Claim C6\<close>, as amended. Take an active plan that has not reached its end date and has a
  previous deduction (\<open>lastDeductionDate > 0\<close>), with timestamps in range: the expected date
  \<open>startDate + successfulDeductions * 1 day\<close> and \<open>lastDeductionDate + 1 hour\<close> fit in a
  \<^verbatim>\<open>uint256\<close> and the expected date is at least one hour (so \<open>expected - 1 hour\<close> does not
  underflow; after a first deduction the expected date is at least one day). While the
  contract is paused, \<^verbatim>\<open>executeDeduction\<close> reverts with \<open>EnforcedPause\<close>, whatever the
  dates. While it is not paused, \<^verbatim>\<open>executeDeduction\<close> reverts with
  \<open>DeductionAlreadyExecuted\<close> exactly when the previous deduction ran within the last hour or
  on or after \<open>expected - 1 hour\<close>; and when it is not rejected so, and the call comes more
  than one hour before the expected date, it reverts with \<open>InvalidParameter\<close>: the duplicate
  check comes before the prematurity check. In each of these cases the call leaves the whole
  state, plans and counters, as it was.
\<close>

theorem executeDeduction_rejections:
  assumes "pid \<noteq> 0" and "pid \<le> totalPlans s"
    and "isActive (plans s pid)" and "\<not> isCompleted (plans s pid)"
    and "block_timestamp e < endDate (plans s pid)"
    and "lastDeductionDate (plans s pid) > 0"
    and "startDate (plans s pid) + successfulDeductions (plans s pid) * ONE_DAY \<le> MAX_UINT256"
    and "lastDeductionDate (plans s pid) + ONE_HOUR \<le> MAX_UINT256"
    and "ONE_HOUR \<le> startDate (plans s pid) + successfulDeductions (plans s pid) * ONE_DAY"
  shows "let p = plans s pid;
             expected = startDate p + successfulDeductions p * ONE_DAY;
             already = (block_timestamp e \<le> lastDeductionDate p + ONE_HOUR
                        \<or> lastDeductionDate p \<ge> expected - ONE_HOUR);
             premature = (block_timestamp e < expected - ONE_HOUR)
         in (paused s \<longrightarrow> executeDeduction e pid s = Inl EnforcedPause)
          \<and> (\<not> paused s \<longrightarrow>
               (executeDeduction e pid s = Inl DeductionAlreadyExecuted \<longleftrightarrow> already)
               \<and> (premature \<longrightarrow>
                    executeDeduction e pid s
                      = (if already then Inl DeductionAlreadyExecuted else Inl InvalidParameter)))
          \<and> (paused s \<or> already \<or> premature \<longrightarrow> run [(e, ExecuteDeduction pid)] s = s)"
proof (cases "paused s")
  case True
  from executeDeduction_paused[OF assms(1) assms(2) True, of e] True
  show ?thesis unfolding Let_def by blast
next
  case False
  from executeDeduction_unpaused_rejections[OF assms(1) assms(2) False assms(3-9)]
  have u: "(executeDeduction e pid s = Inl DeductionAlreadyExecuted \<longleftrightarrow>
              (block_timestamp e \<le> lastDeductionDate (plans s pid) + ONE_HOUR
                \<or> lastDeductionDate (plans s pid)
                    \<ge> startDate (plans s pid) + successfulDeductions (plans s pid) * ONE_DAY - ONE_HOUR))
          \<and> (\<not> (block_timestamp e \<le> lastDeductionDate (plans s pid) + ONE_HOUR
                \<or> lastDeductionDate (plans s pid)
                    \<ge> startDate (plans s pid) + successfulDeductions (plans s pid) * ONE_DAY - ONE_HOUR)
              \<and> block_timestamp e
                  < startDate (plans s pid) + successfulDeductions (plans s pid) * ONE_DAY - ONE_HOUR
              \<longrightarrow> executeDeduction e pid s = Inl InvalidParameter)
          \<and> ((block_timestamp e \<le> lastDeductionDate (plans s pid) + ONE_HOUR
                \<or> lastDeductionDate (plans s pid)
                    \<ge> startDate (plans s pid) + successfulDeductions (plans s pid) * ONE_DAY - ONE_HOUR)
              \<or> block_timestamp e
                  < startDate (plans s pid) + successfulDeductions (plans s pid) * ONE_DAY - ONE_HOUR
              \<longrightarrow> run [(e, ExecuteDeduction pid)] s = s)"
    unfolding Let_def .
  show ?thesis
    unfolding Let_def using u False
    by (simp only: if_split) blast
qed

text \<open>
  The theorem at the plan of the fixture after its first deduction at \<open>1700000000\<close>: a
  second call a hundred seconds later is a duplicate, a call after three hours, a
  day too early, is premature, and a call while the contract is paused is refused for
  that.
\<close>

theorem executeDeduction_rejections_witness:
  "executeDeduction (callEnv 1 1700000100) 1 afterDeposit = Inl DeductionAlreadyExecuted
   \<and> executeDeduction (callEnv 1 1700010000) 1 afterDeposit = Inl InvalidParameter
   \<and> executeDeduction (callEnv 1 1700000250) 1 pausedAfterDeposit = Inl EnforcedPause
   \<and> run [(callEnv 1 1700000100, ExecuteDeduction 1)] afterDeposit = afterDeposit
   \<and> run [(callEnv 1 1700010000, ExecuteDeduction 1)] afterDeposit = afterDeposit
   \<and> run [(callEnv 1 1700000250, ExecuteDeduction 1)] pausedAfterDeposit = pausedAfterDeposit"
  using executeDeduction_rejections[of 1 afterDeposit "callEnv 1 1700000100"]
    executeDeduction_rejections[of 1 afterDeposit "callEnv 1 1700010000"]
    executeDeduction_rejections[of 1 pausedAfterDeposit "callEnv 1 1700000250"]
  by (simp del: One_nat_def run.simps
      add: afterDeposit_plan afterDeposit_globals pausedAfterDeposit_facts callEnv_def Let_def
        ONE_DAY_def ONE_HOUR_def MAX_UINT256_def)

text \<open>
  Claim C6 as stated fails. A hundred seconds after the first deduction of the fixture's
  plan the call comes more than one hour before the expected date \<open>1700086400\<close>, and it is
  not rejected as premature with \<open>InvalidParameter\<close>: it is rejected with
  \<open>DeductionAlreadyExecuted\<close>, the previous deduction having run within the last hour.
\<close>

theorem premature_duplicate_counterexample:
  "isActive (plans afterDeposit 1) \<and> \<not> isCompleted (plans afterDeposit 1)
   \<and> lastDeductionDate (plans afterDeposit 1) > 0
   \<and> block_timestamp (callEnv 1 1700000100) < endDate (plans afterDeposit 1)
   \<and> block_timestamp (callEnv 1 1700000100)
        < startDate (plans afterDeposit 1)
            + successfulDeductions (plans afterDeposit 1) * ONE_DAY - ONE_HOUR
   \<and> executeDeduction (callEnv 1 1700000100) 1 afterDeposit = Inl DeductionAlreadyExecuted
   \<and> executeDeduction (callEnv 1 1700000100) 1 afterDeposit \<noteq> Inl InvalidParameter"
  by (simp add: evals)

text \<open>
  \<^bold>\<open>Claim C7\<close>, as amended. When \<^verbatim>\<open>executeDeduction\<close> on a due deduction finds the owner's
  token balance or allowance below \<open>dailyAmount\<close> (the call has passed the plan-id,
  pause, activity, maturity, duplicate and prematurity checks, and the missed counter is
  not at its maximum), the call succeeds, and the state after it is the state before it
  with \<open>missedDeductions\<close> of the plan increased by one and nothing else changed. So
  \<open>successfulDeductions\<close> and \<open>accumulatedBalance\<close> are unchanged, and so is the plan's
  next scheduled slot \<open>startDate + successfulDeductions * 1 day\<close>: it does not advance.
\<close>

theorem executeDeduction_missed:
  assumes "pid \<noteq> 0" and "pid \<le> totalPlans s" and "\<not> paused s"
    and "isActive (plans s pid)" and "\<not> isCompleted (plans s pid)"
    and "block_timestamp e < endDate (plans s pid)"
    and "block_timestamp e \<le> MAX_UINT256"
    and "startDate (plans s pid) + successfulDeductions (plans s pid) * ONE_DAY \<le> MAX_UINT256"
    and "ONE_HOUR \<le> startDate (plans s pid) + successfulDeductions (plans s pid) * ONE_DAY"
    and "lastDeductionDate (plans s pid) > 0 \<longrightarrow>
           lastDeductionDate (plans s pid) + ONE_HOUR < block_timestamp e
           \<and> lastDeductionDate (plans s pid)
               < startDate (plans s pid) + successfulDeductions (plans s pid) * ONE_DAY - ONE_HOUR"
    and "startDate (plans s pid) + successfulDeductions (plans s pid) * ONE_DAY - ONE_HOUR
           \<le> block_timestamp e"
    and "tokenBalances s (owner (plans s pid)) < dailyAmount (plans s pid)
         \<or> tokenAllowances s (owner (plans s pid)) (thisAddress s) < dailyAmount (plans s pid)"
    and "missedDeductions (plans s pid) < MAX_UINT256"
  shows "let s' = s\<lparr>plans := (plans s)
                     (pid := (plans s pid)\<lparr>missedDeductions := missedDeductions (plans s pid) + 1\<rparr>)\<rparr>
         in executeDeduction e pid s = Inr s'
          \<and> successfulDeductions (plans s' pid) = successfulDeductions (plans s pid)
          \<and> accumulatedBalance (plans s' pid) = accumulatedBalance (plans s pid)
          \<and> startDate (plans s' pid) + successfulDeductions (plans s' pid) * ONE_DAY
               = startDate (plans s pid) + successfulDeductions (plans s pid) * ONE_DAY"
proof -
  have m: "\<not> successfulDeductions (plans s pid) * ONE_DAY > MAX_UINT256"
    using assms(8) by simp
  have l: "lastDeductionDate (plans s pid) > 0 \<Longrightarrow>
             \<not> lastDeductionDate (plans s pid) + ONE_HOUR > MAX_UINT256"
    using assms(7,10) by simp
  have "executeDeduction e pid s
          = Inr (s\<lparr>plans := (plans s)
                     (pid := (plans s pid)\<lparr>missedDeductions := missedDeductions (plans s pid) + 1\<rparr>)\<rparr>)"
    using assms m l by (auto simp add: executeDeduction_def Let_def)
  then show ?thesis by (simp add: Let_def)
qed

text \<open>
  The theorem at the unfunded plan of the fixture, whose first deduction is due at once.
\<close>

theorem executeDeduction_missed_witness:
  "executeDeduction (callEnv 1 1700000000) 1 unfundedPlan = Inr afterMissed
   \<and> missedDeductions (plans afterMissed 1) = missedDeductions (plans unfundedPlan 1) + 1
   \<and> successfulDeductions (plans afterMissed 1) = successfulDeductions (plans unfundedPlan 1)
   \<and> accumulatedBalance (plans afterMissed 1) = accumulatedBalance (plans unfundedPlan 1)"
  using executeDeduction_missed[of 1 unfundedPlan "callEnv 1 1700000000"] missed_result
  by (simp del: One_nat_def
      add: unfundedPlan_facts afterMissed_plan callEnv_def Let_def ONE_DAY_def ONE_HOUR_def
        MAX_UINT256_def)

text \<open>
  Claim C7 as stated fails in its last part. After the missed deduction of the unfunded
  plan the next scheduled slot \<open>startDate + successfulDeductions * 1 day\<close> is
  \<open>1700000000\<close>, the slot that was just processed, and not one day later.
\<close>

theorem missed_slot_counterexample:
  "executeDeduction (callEnv 1 1700000000) 1 unfundedPlan = Inr afterMissed
   \<and> startDate (plans unfundedPlan 1) + successfulDeductions (plans unfundedPlan 1) * ONE_DAY
        = 1700000000
   \<and> startDate (plans afterMissed 1) + successfulDeductions (plans afterMissed 1) * ONE_DAY
        = 1700000000
   \<and> startDate (plans afterMissed 1) + successfulDeductions (plans afterMissed 1) * ONE_DAY
        \<noteq> startDate (plans unfundedPlan 1)
            + successfulDeductions (plans unfundedPlan 1) * ONE_DAY + ONE_DAY"
  using missed_result
  by (simp del: One_nat_def add: unfundedPlan_facts afterMissed_plan ONE_DAY_def)

section \<open>The two yield paths: claim C9\<close>

lemma calculateTimeFactor_value:
  assumes "calculateTimeFactor e plan = Inr tf" and "startDate plan < endDate plan"
  shows "tf = (min (block_timestamp e - startDate plan) (endDate plan - startDate plan) * PRECISION)
                div (endDate plan - startDate plan)"
  using assms unfolding calculateTimeFactor_def Let_def
  by (auto split: if_split_asm simp add: min_def)

lemma getAccumulatedYield_value:
  assumes "getAccumulatedYield e pid s = Inr v"
    and "calculateTimeFactor e (plans s pid) = Inr tf"
  shows "v = (if principalDeposited (plans s pid) = 0 \<or> totalPrincipal s = 0 \<or> totalYieldShares s = 0
              then 0
              else ((((principalDeposited (plans s pid) * totalYieldShares s) div totalPrincipal s)
                       * tf) div PRECISION) * userYieldShareBps s div 10000)"
  using assms unfolding getAccumulatedYield_def Let_def
  by (auto split: if_split_asm)

lemma calculateAndDistributeYield_value:
  assumes "calculateAndDistributeYield e pid s = Inr (s', y)"
    and "calculateTimeFactor e (plans s pid) = Inr tf"
    and "yp_getBalance e = Some bal"
  shows "y = (if principalDeposited (plans s pid) = 0 \<or> totalPrincipal s = 0 \<or> totalYieldShares s = 0
                 \<or> bal \<le> totalPrincipal s
              then 0
              else ((((principalDeposited (plans s pid) * totalYieldShares s) div totalPrincipal s)
                       * (bal - totalPrincipal s) * tf) div (totalYieldShares s * PRECISION))
                     * userYieldShareBps s div 10000)"
  using assms unfolding calculateAndDistributeYield_def Let_def
  by (auto split: if_split_asm)

lemma calculateAndDistributeYield_shape:
  assumes "calculateAndDistributeYield e pid s = Inr (s', y)"
  shows "s' = s\<lparr>plans := (plans s)(pid := (plans s pid)\<lparr>yieldEarned := yieldEarned (plans s pid) + y\<rparr>),
                 totalUserYield := totalUserYield s + y\<rparr>"
  using assms unfolding calculateAndDistributeYield_def Let_def
  by (auto split: if_split_asm sum.split_asm option.split_asm)

text \<open>
  \<^bold>\<open>Claim C9\<close> says that \<^verbatim>\<open>getAccumulatedYield\<close> and the distribution path of
  \<^verbatim>\<open>claimYield\<close> compute the same amount. Where both return, the plan has principal and
  \<open>totalPrincipal\<close> and \<open>totalYieldShares\<close> are not zero, the two amounts are these. The
  read-only path returns the plan's share of the pooled shares
  \<open>principalDeposited * totalYieldShares div totalPrincipal\<close>, scaled by the time factor
  and by \<open>userYieldShareBps\<close>, and never asks the protocol for its balance. The mutating
  path returns \<open>0\<close> when the protocol's balance does not exceed \<open>totalPrincipal\<close>, and
  otherwise multiplies the same share by the yield \<open>balance - totalPrincipal\<close> and divides
  by \<open>totalYieldShares\<close> before the same two scalings. The time factor is the one of the
  claim, \<open>min elapsed duration\<close> over \<open>duration\<close>, scaled by \<open>PRECISION\<close>.
\<close>

theorem yield_paths_formulas:
  assumes "getAccumulatedYield e pid s = Inr v"
    and "calculateAndDistributeYield e pid s = Inr (s', y)"
    and "calculateTimeFactor e (plans s pid) = Inr tf"
    and "yp_getBalance e = Some bal"
    and "startDate (plans s pid) < endDate (plans s pid)"
    and "0 < principalDeposited (plans s pid)" and "0 < totalPrincipal s"
    and "0 < totalYieldShares s"
  shows "let p = plans s pid;
             share = (principalDeposited p * totalYieldShares s) div totalPrincipal s
         in tf = (min (block_timestamp e - startDate p) (endDate p - startDate p) * PRECISION)
                   div (endDate p - startDate p)
          \<and> v = ((share * tf) div PRECISION) * userYieldShareBps s div 10000
          \<and> y = (if bal \<le> totalPrincipal s then 0
                 else ((share * (bal - totalPrincipal s) * tf) div (totalYieldShares s * PRECISION))
                        * userYieldShareBps s div 10000)"
proof -
  have c: "\<not> (principalDeposited (plans s pid) = 0 \<or> totalPrincipal s = 0 \<or> totalYieldShares s = 0)"
    using assms(6,7,8) by simp
  have d: "(principalDeposited (plans s pid) = 0 \<or> totalPrincipal s = 0 \<or> totalYieldShares s = 0
             \<or> bal \<le> totalPrincipal s) = (bal \<le> totalPrincipal s)"
    using c by blast
  note t = calculateTimeFactor_value[OF assms(3,5)]
  from getAccumulatedYield_value[OF assms(1,3)]
  have v: "v = ((((principalDeposited (plans s pid) * totalYieldShares s) div totalPrincipal s)
                       * tf) div PRECISION) * userYieldShareBps s div 10000"
    by (simp only: c if_False)
  from calculateAndDistributeYield_value[OF assms(2,3,4)]
  have y: "y = (if bal \<le> totalPrincipal s then 0
                else ((((principalDeposited (plans s pid) * totalYieldShares s) div totalPrincipal s)
                       * (bal - totalPrincipal s) * tf) div (totalYieldShares s * PRECISION))
                     * userYieldShareBps s div 10000)"
    by (simp only: d)
  show ?thesis
    unfolding Let_def by (intro conjI) (rule t, rule v, rule y)
qed

lemma yield_fixture_results:
  "getAccumulatedYield (mockEnv 7 1701296000 500 10000000 10000000) 1 yieldDeposited = Inr 4500000
   \<and> calculateAndDistributeYield (mockEnv 7 1701296000 500 10000000 10000000) 1 yieldDeposited
        = Inr (yieldCredited, 225000)
   \<and> calculateTimeFactor (mockEnv 7 1701296000 500 10000000 10000000) (plans yieldDeposited 1)
        = Inr 500000000000000000
   \<and> getAccumulatedYield (mockEnv 7 1701296000 0 10000000 10000000) 1 yieldDeposited = Inr 4500000
   \<and> calculateAndDistributeYield (mockEnv 7 1701296000 0 10000000 10000000) 1 yieldDeposited
        = Inr (yieldDeposited, 0)"
  by (simp add: evals getAccumulatedYield_def calculateAndDistributeYield_def)

text \<open>
  The failing input of C9: the plan of the yield fixture, 10 USDC of principal in a pool of
  10 USDC and 10000000 shares, half-way through its 30 days. With the protocol reporting
  10.5 USDC the read-only path answers 4.5 USDC and the mutating path credits 0.225 USDC;
  with the protocol reporting 10 USDC, no yield at all, the read-only path still answers
  4.5 USDC and the mutating path credits nothing.
\<close>

theorem yield_paths_formulas_witness:
  "getAccumulatedYield (mockEnv 7 1701296000 500 10000000 10000000) 1 yieldDeposited = Inr 4500000
   \<and> calculateAndDistributeYield (mockEnv 7 1701296000 500 10000000 10000000) 1 yieldDeposited
        = Inr (yieldCredited, 225000)
   \<and> (4500000::nat) = ((10000000 * 500000000000000000) div PRECISION) * 9000 div 10000
   \<and> (225000::nat) = ((10000000 * (10500000 - 10000000) * 500000000000000000)
                          div (10000000 * PRECISION)) * 9000 div 10000
   \<and> getAccumulatedYield (mockEnv 7 1701296000 0 10000000 10000000) 1 yieldDeposited = Inr 4500000
   \<and> calculateAndDistributeYield (mockEnv 7 1701296000 0 10000000 10000000) 1 yieldDeposited
        = Inr (yieldDeposited, 0)"
  using yield_paths_formulas[of "mockEnv 7 1701296000 500 10000000 10000000" 1 yieldDeposited 4500000
      yieldCredited 225000 500000000000000000 10500000]
    yield_fixture_results
  by (simp del: One_nat_def add: yieldDeposited_facts PRECISION_def)

section \<open>The global counters: claim C8\<close>

lemma frame_counters:
  assumes "s' = s\<lparr>totalYieldShares := a, tokenBalances := b\<rparr>"
  shows "totalPlans s' = totalPlans s \<and> totalPrincipal s' = totalPrincipal s
       \<and> totalUserYield s' = totalUserYield s \<and> totalProtocolYield s' = totalProtocolYield s"
  using assms by simp

lemma token_frame_counters:
  assumes "s' = s\<lparr>tokenBalances := b, tokenAllowances := a\<rparr>"
  shows "totalPlans s' = totalPlans s \<and> totalPrincipal s' = totalPrincipal s
       \<and> totalUserYield s' = totalUserYield s \<and> totalProtocolYield s' = totalProtocolYield s"
  using assms by simp

lemma safeTransfer_counters:
  assumes "safeTransfer to v s = Inr s'"
  shows "totalPlans s' = totalPlans s \<and> totalPrincipal s' = totalPrincipal s
       \<and> totalUserYield s' = totalUserYield s \<and> totalProtocolYield s' = totalProtocolYield s"
proof -
  from safeTransfer_frame[OF assms] obtain b where "s' = s\<lparr>tokenBalances := b\<rparr>" by blast
  then show ?thesis by simp
qed

lemma createPlan_counters:
  assumes "createPlan e daily d s = Inr (s', pid)"
  shows "countersNotDecreased s s'"
  using assms unfolding createPlan_def Let_def
  by (auto split: if_split_asm)

lemma executeDeduction_counters:
  assumes "executeDeduction e pid s = Inr s'"
  shows "countersNotDecreased s s'"
proof -
  from executeDeduction_cases[OF assms]
  consider (matured) "s' = s\<lparr>plans := (plans s)(pid := (plans s pid)\<lparr>isActive := False, isCompleted := True\<rparr>)\<rparr>"
    | (missed) "s' = s\<lparr>plans := (plans s)
                  (pid := (plans s pid)\<lparr>missedDeductions := missedDeductions (plans s pid) + 1\<rparr>)\<rparr>"
    | (taken) s1 where
        "safeTransferFrom (owner (plans s pid)) (thisAddress s) (dailyAmount (plans s pid)) s = Inr s1"
        "sweepToYield e
                      (s1\<lparr>plans := (plans s1)
                            (pid := (plans s pid)
                               \<lparr>accumulatedBalance := accumulatedBalance (plans s pid) + dailyAmount (plans s pid),
                                principalDeposited := principalDeposited (plans s pid) + dailyAmount (plans s pid),
                                lastDeductionDate := block_timestamp e,
                                successfulDeductions := successfulDeductions (plans s pid) + 1\<rparr>),
                          totalPrincipal := totalPrincipal s1 + dailyAmount (plans s pid)\<rparr>) = Inr s'"
    by blast
  then show ?thesis
  proof cases
    case matured
    then show ?thesis by simp
  next
    case missed
    then show ?thesis by simp
  next
    case taken
    note a = token_frame_counters[OF safeTransferFrom_frame[OF taken(1)]]
    note b = frame_counters[OF sweepToYield_frame[OF taken(2)]]
    from a b show ?thesis by simp
  qed
qed

lemma batchItem_counters:
  assumes "batchItem e pid s = Inr s'"
  shows "countersNotDecreased s s' \<and> totalProtocolYield s' = totalProtocolYield s"
proof -
  have "s' = s \<or> s' = s\<lparr>plans := (plans s)(pid := (plans s pid)\<lparr>isActive := False, isCompleted := True\<rparr>)\<rparr>
       \<or> s' = s\<lparr>plans := (plans s)
                  (pid := (plans s pid)\<lparr>missedDeductions := missedDeductions (plans s pid) + 1\<rparr>)\<rparr>
       \<or> (\<exists>s1. safeTransferFrom (owner (plans s pid)) (thisAddress s) (dailyAmount (plans s pid)) s = Inr s1
             \<and> s' = s1\<lparr>plans := (plans s1)
                            (pid := (plans s pid)
                               \<lparr>accumulatedBalance := accumulatedBalance (plans s pid) + dailyAmount (plans s pid),
                                principalDeposited := principalDeposited (plans s pid) + dailyAmount (plans s pid),
                                lastDeductionDate := block_timestamp e,
                                successfulDeductions := successfulDeductions (plans s pid) + 1\<rparr>),
                          totalPrincipal := totalPrincipal s1 + dailyAmount (plans s pid)\<rparr>)"
    using assms unfolding batchItem_def Let_def
    by (auto split: if_split_asm sum.split_asm)
  then consider "s' = s"
    | "s' = s\<lparr>plans := (plans s)(pid := (plans s pid)\<lparr>isActive := False, isCompleted := True\<rparr>)\<rparr>"
    | "s' = s\<lparr>plans := (plans s)
                  (pid := (plans s pid)\<lparr>missedDeductions := missedDeductions (plans s pid) + 1\<rparr>)\<rparr>"
    | s1 where "safeTransferFrom (owner (plans s pid)) (thisAddress s) (dailyAmount (plans s pid)) s = Inr s1"
        "s' = s1\<lparr>plans := (plans s1)
                            (pid := (plans s pid)
                               \<lparr>accumulatedBalance := accumulatedBalance (plans s pid) + dailyAmount (plans s pid),
                                principalDeposited := principalDeposited (plans s pid) + dailyAmount (plans s pid),
                                lastDeductionDate := block_timestamp e,
                                successfulDeductions := successfulDeductions (plans s pid) + 1\<rparr>),
                          totalPrincipal := totalPrincipal s1 + dailyAmount (plans s pid)\<rparr>"
    by blast
  then show ?thesis
  proof cases
    case 4
    note a = token_frame_counters[OF safeTransferFrom_frame[OF 4(1)]]
    from a show ?thesis by (simp add: 4(2))
  qed simp_all
qed

lemma batchLoop_counters:
  assumes "batchLoop e pids s = Inr s'"
  shows "countersNotDecreased s s' \<and> totalProtocolYield s' = totalProtocolYield s"
  using assms
proof (induction pids arbitrary: s)
  case Nil
  then show ?case by simp
next
  case (Cons pid pids)
  from Cons.prems obtain s1 where
    i: "batchItem e pid s = Inr s1" and l: "batchLoop e pids s1 = Inr s'"
    by (auto split: sum.split_asm)
  from batchItem_counters[OF i] Cons.IH[OF l] show ?case by simp
qed

lemma executeDeductionsBatch_counters:
  assumes "executeDeductionsBatch e pids s = Inr s'"
  shows "countersNotDecreased s s'"
proof -
  from assms obtain s1 where
    l: "batchLoop e pids s = Inr s1"
    and d: "s' = s1 \<or> depositToYield e
               (tokenBalances s1 (thisAddress s1) - tokenBalances s (thisAddress s)) s1 = Inr s'"
    unfolding executeDeductionsBatch_def Let_def
    by (auto split: if_split_asm sum.split_asm option.split_asm)
  from d have "totalPlans s' = totalPlans s1 \<and> totalPrincipal s' = totalPrincipal s1
       \<and> totalUserYield s' = totalUserYield s1 \<and> totalProtocolYield s' = totalProtocolYield s1"
    using frame_counters[OF depositToYield_frame] by blast
  with batchLoop_counters[OF l] show ?thesis by simp
qed

lemma withdraw_counters:
  assumes "withdraw e pid amt s = Inr (s', paid)"
  shows "countersNotDecreased s s'"
proof -
  from assms obtain plan2 sh tb where
    "s' = s\<lparr>plans := (plans s)(pid := plan2), totalYieldShares := sh, tokenBalances := tb\<rparr>"
    by (rule withdraw_shape)
  then show ?thesis by simp
qed

lemma claimYield_counters:
  assumes "claimYield e pid s = Inr (s', y)"
  shows "countersNotDecreased s s'"
proof -
  from assms obtain s1 y1 where
    c: "calculateAndDistributeYield e pid s = Inr (s1, y1)"
    and r: "s' = s1 \<or> (\<exists>s2. pullFromYield e y1 s1 = Inr s2
                            \<and> safeTransfer (owner (plans s2 pid)) y1 s2 = Inr s')"
    unfolding claimYield_def Let_def
    by (auto split: if_split_asm sum.split_asm prod.split_asm)
  from calculateAndDistributeYield_shape[OF c] have a: "countersNotDecreased s s1"
    by simp
  from r have "countersNotDecreased s1 s'"
  proof
    assume "s' = s1" then show ?thesis by simp
  next
    assume "\<exists>s2. pullFromYield e y1 s1 = Inr s2 \<and> safeTransfer (owner (plans s2 pid)) y1 s2 = Inr s'"
    then obtain s2 where p: "pullFromYield e y1 s1 = Inr s2"
      and t: "safeTransfer (owner (plans s2 pid)) y1 s2 = Inr s'" by blast
    from frame_counters[OF pullFromYield_frame[OF p, THEN conjunct1]] safeTransfer_counters[OF t]
    show ?thesis by simp
  qed
  with a show ?thesis by simp
qed

lemma harvestYield_counters:
  assumes "harvestYield e s = Inr s'"
  shows "countersNotDecreased s s'"
proof -
  have "s' = s \<or> (\<exists>s1 u p. (s1 = s \<or> (\<exists>a. withdrawFromYield e a s = Inr s1))
          \<and> s' = s1\<lparr>totalUserYield := totalUserYield s1 + u,
                     totalProtocolYield := totalProtocolYield s1 + p,
                     lastYieldHarvest := block_timestamp e\<rparr>)"
    using assms unfolding harvestYield_def Let_def
    by (auto split: if_split_asm sum.split_asm option.split_asm)
  then show ?thesis
    using frame_counters[OF withdrawFromYield_frame[THEN conjunct1]] by auto
qed

lemma admin_counters:
  "setYieldProtocol e a s = Inr s' \<Longrightarrow> countersNotDecreased s s'"
  "setEarlyWithdrawalPenalty e p s = Inr s' \<Longrightarrow> countersNotDecreased s s'"
  "setDailyDeductionLimits e mn mx s = Inr s' \<Longrightarrow> countersNotDecreased s s'"
  "setYieldDistribution e ub fb s = Inr s' \<Longrightarrow> countersNotDecreased s s'"
  "setMinYieldDepositThreshold e t s = Inr s' \<Longrightarrow> countersNotDecreased s s'"
  "setEmergencyWithdrawalDelay e dl s = Inr s' \<Longrightarrow> countersNotDecreased s s'"
  "pause e s = Inr s' \<Longrightarrow> countersNotDecreased s s'"
  "unpause e s = Inr s' \<Longrightarrow> countersNotDecreased s s'"
  "grantRole e ro acc s = Inr s' \<Longrightarrow> countersNotDecreased s s'"
  "revokeRole e ro acc s = Inr s' \<Longrightarrow> countersNotDecreased s s'"
  "renounceRole e ro acc s = Inr s' \<Longrightarrow> countersNotDecreased s s'"
  "cancelEmergencyWithdrawal e wid s = Inr s' \<Longrightarrow> countersNotDecreased s s'"
  unfolding setYieldProtocol_def setEarlyWithdrawalPenalty_def setDailyDeductionLimits_def
    setYieldDistribution_def setMinYieldDepositThreshold_def setEmergencyWithdrawalDelay_def
    pause_def unpause_def grantRole_def revokeRole_def renounceRole_def
    cancelEmergencyWithdrawal_def Let_def
  by (auto split: if_split_asm option.split_asm)

lemma emergencyExitYield_counters:
  assumes "emergencyExitYield e rs s = Inr s'"
  shows "countersNotDecreased s s'"
proof -
  have "s' = s \<or> (\<exists>v s1. protocolPays v s = Some s1 \<and> s' = s1\<lparr>totalYieldShares := 0\<rparr>)"
    using assms unfolding emergencyExitYield_def
    by (auto split: if_split_asm option.split_asm simp add: bind_eq_Some_conv)
  then show ?thesis
  proof
    assume "s' = s"
    then show ?thesis by simp
  next
    assume "\<exists>v s1. protocolPays v s = Some s1 \<and> s' = s1\<lparr>totalYieldShares := 0\<rparr>"
    then obtain v s1 where p: "protocolPays v s = Some s1"
      and s': "s' = s1\<lparr>totalYieldShares := 0\<rparr>" by blast
    from protocolPays_frame[OF p] obtain tb where s1: "s1 = s\<lparr>tokenBalances := tb\<rparr>"
      by blast
    show ?thesis by (simp add: s' s1)
  qed
qed

lemma emergency_counters:
  "scheduleEmergencyWithdrawal e u pid amt r s = Inr (s', wid) \<Longrightarrow> countersNotDecreased s s'"
  "executeEmergencyWithdrawal e wid s = Inr s' \<Longrightarrow> countersNotDecreased s s'"
proof -
  show "scheduleEmergencyWithdrawal e u pid amt r s = Inr (s', wid) \<Longrightarrow> countersNotDecreased s s'"
    using scheduleEmergencyWithdrawal_success[of e u pid amt r s s' wid] by simp
  show "executeEmergencyWithdrawal e wid s = Inr s' \<Longrightarrow> countersNotDecreased s s'"
  proof -
    assume "executeEmergencyWithdrawal e wid s = Inr s'"
    then obtain plan1 sh tb where
      "s' = s\<lparr>plans := (plans s)
              (planId (emergencyWithdrawals s wid) := plan1\<lparr>isActive := False, isCompleted := True\<rparr>),
            emergencyWithdrawals := (emergencyWithdrawals s)
              (wid := (emergencyWithdrawals s wid)\<lparr>executed := True\<rparr>),
            totalYieldShares := sh, tokenBalances := tb\<rparr>"
      by (rule executeEmergencyWithdrawal_shape)
    then show ?thesis by simp
  qed
qed

lemma withdrawProtocolFees_counters:
  assumes "withdrawProtocolFees e amt to s = Inr s'"
  shows "totalPlans s' = totalPlans s \<and> totalPrincipal s' = totalPrincipal s
       \<and> totalUserYield s' = totalUserYield s
       \<and> amt \<le> totalProtocolYield s \<and> totalProtocolYield s' = totalProtocolYield s - amt"
proof -
  from assms have g: "amt \<le> totalProtocolYield s"
    and t: "safeTransfer to amt (s\<lparr>totalProtocolYield := totalProtocolYield s - amt\<rparr>) = Inr s'"
    unfolding withdrawProtocolFees_def by (auto split: if_split_asm)
  from safeTransfer_counters[OF t] g show ?thesis by simp
qed

lemma dropResult_Inr:
  "dropResult r = Inr s' \<longleftrightarrow> (\<exists>x. r = Inr (s', x))"
  by (cases r) (auto simp add: dropResult_def)

lemma harvest_result:
  "step (mockEnv 1 1700086400 500 10000000 10000000) HarvestYield yieldDeposited = Inr harvested
   \<and> totalUserYield yieldDeposited = 0 \<and> totalProtocolYield yieldDeposited = 0"
  by (simp add: evals)

text \<open>
  \<^bold>\<open>Claim C8\<close>, as amended. No successful call of the contract decreases \<open>totalPlans\<close>,
  \<open>totalPrincipal\<close> or \<open>totalUserYield\<close>, and no successful call other than
  \<^verbatim>\<open>withdrawProtocolFees\<close> decreases \<open>totalProtocolYield\<close>; a successful
  \<^verbatim>\<open>withdrawProtocolFees(amount, to)\<close> lowers \<open>totalProtocolYield\<close> by exactly \<open>amount\<close>,
  which is at most the counter. (A reverted call changes nothing.)
\<close>

theorem counters_monotone:
  assumes "step e c s = Inr s'"
  shows "totalPlans s \<le> totalPlans s' \<and> totalPrincipal s \<le> totalPrincipal s'
       \<and> totalUserYield s \<le> totalUserYield s'
       \<and> (case c of
             WithdrawProtocolFees amt to \<Rightarrow>
               amt \<le> totalProtocolYield s \<and> totalProtocolYield s' = totalProtocolYield s - amt
           | _ \<Rightarrow> totalProtocolYield s \<le> totalProtocolYield s')"
proof (cases c)
  case (CreatePlan daily d)
  with assms createPlan_counters show ?thesis by (auto simp add: dropResult_Inr)
next
  case (ExecuteDeduction pid)
  with assms executeDeduction_counters show ?thesis by auto
next
  case (ExecuteDeductionsBatch pids)
  with assms executeDeductionsBatch_counters show ?thesis by auto
next
  case (Withdraw pid amt)
  with assms withdraw_counters show ?thesis by (auto simp add: dropResult_Inr)
next
  case (ClaimYield pid)
  with assms claimYield_counters show ?thesis by (auto simp add: dropResult_Inr)
next
  case (SetYieldProtocol a)
  with assms admin_counters(1) show ?thesis by auto
next
  case (SetEarlyWithdrawalPenalty p)
  with assms admin_counters(2) show ?thesis by auto
next
  case (SetDailyDeductionLimits mn mx)
  with assms admin_counters(3) show ?thesis by auto
next
  case (SetYieldDistribution u f)
  with assms admin_counters(4) show ?thesis by auto
next
  case (SetMinYieldDepositThreshold t)
  with assms admin_counters(5) show ?thesis by auto
next
  case (SetEmergencyWithdrawalDelay d)
  with assms admin_counters(6) show ?thesis by auto
next
  case HarvestYield
  with assms harvestYield_counters show ?thesis by auto
next
  case (EmergencyExitYield r)
  with assms emergencyExitYield_counters show ?thesis by auto
next
  case (ScheduleEmergencyWithdrawal u pid amt r)
  with assms emergency_counters(1) show ?thesis by (auto simp add: dropResult_Inr)
next
  case (ExecuteEmergencyWithdrawal wid)
  with assms emergency_counters(2) show ?thesis by auto
next
  case (CancelEmergencyWithdrawal wid)
  with assms admin_counters(12) show ?thesis by auto
next
  case (WithdrawProtocolFees amt to)
  with assms withdrawProtocolFees_counters[of e amt to s s'] show ?thesis by auto
next
  case Pause
  with assms admin_counters(7) show ?thesis by auto
next
  case Unpause
  with assms admin_counters(8) show ?thesis by auto
next
  case (GrantRole r a)
  with assms admin_counters(9) show ?thesis by auto
next
  case (RevokeRole r a)
  with assms admin_counters(10) show ?thesis by auto
next
  case (RenounceRole r a)
  with assms admin_counters(11) show ?thesis by auto
qed

text \<open>
  The theorem at two calls of the yield fixture: the harvest, which raises
  \<open>totalUserYield\<close> and \<open>totalProtocolYield\<close>, and the withdrawal of the protocol's fees.
\<close>

theorem counters_monotone_witness:
  "step (mockEnv 1 1700086400 500 10000000 10000000) HarvestYield yieldDeposited = Inr harvested
   \<and> totalPlans yieldDeposited \<le> totalPlans harvested
   \<and> totalPrincipal yieldDeposited \<le> totalPrincipal harvested
   \<and> totalUserYield yieldDeposited \<le> totalUserYield harvested
   \<and> totalProtocolYield yieldDeposited \<le> totalProtocolYield harvested
   \<and> step (callEnv 1 1700086500) (WithdrawProtocolFees 50000 9) harvested = Inr feesWithdrawn
   \<and> totalUserYield harvested \<le> totalUserYield feesWithdrawn
   \<and> totalProtocolYield feesWithdrawn = totalProtocolYield harvested - 50000"
  using counters_monotone[of "mockEnv 1 1700086400 500 10000000 10000000" HarvestYield yieldDeposited harvested]
    counters_monotone[of "callEnv 1 1700086500" "WithdrawProtocolFees 50000 9" harvested
      feesWithdrawn]
    harvest_result fees_result
  by simp

text \<open>
  Claim C8 as stated fails for \<open>totalProtocolYield\<close>: after the harvest it is \<open>50000\<close>,
  and the admin's successful \<^verbatim>\<open>withdrawProtocolFees(50000, 9)\<close> brings it to \<open>0\<close>.
\<close>

theorem protocol_fees_counterexample:
  "step (callEnv 1 1700086500) (WithdrawProtocolFees 50000 9) harvested = Inr feesWithdrawn
   \<and> totalProtocolYield harvested = 50000
   \<and> totalProtocolYield feesWithdrawn = 0
   \<and> totalProtocolYield feesWithdrawn < totalProtocolYield harvested"
  using fees_result harvested_facts by simp

end
